theory Spec2Isabelle
  imports Main "HOL-Library.Word"
begin

unbundle bit_operations_syntax

section \<open>Tokens\<close>

text \<open>
  The parser of \<^verbatim>\<open>parser.go\<close> consumes the tokens that the lexer sends over a channel.
  The lexer, the \<^verbatim>\<open>Token\<close> struct and the \<^verbatim>\<open>TokenType\<close> constants are declared outside
  the parser's file. \<^verbatim>\<open>TokenType\<close> is a Go integer type whose constants are numbered by
  \<^verbatim>\<open>iota\<close>; the parser only ever compares token types for equality, so each kind the
  parser names stands for one fixed integer, all of them different. The three names
  that Isabelle's syntax reserves carry a prime: \<open>INT'\<close>, \<open>NOT'\<close>, \<open>CHAR'\<close>.
\<close>

datatype TokenType = TokenType int

abbreviation EOF :: TokenType where "EOF \<equiv> TokenType 0"
abbreviation SPACE :: TokenType where "SPACE \<equiv> TokenType 1"
abbreviation IDENT :: TokenType where "IDENT \<equiv> TokenType 2"
abbreviation BACKTICK_IDENT :: TokenType where "BACKTICK_IDENT \<equiv> TokenType 3"
abbreviation DOUBLE_QUOTE_IDENT :: TokenType where "DOUBLE_QUOTE_IDENT \<equiv> TokenType 4"
abbreviation SINGLE_QUOTE_IDENT :: TokenType where "SINGLE_QUOTE_IDENT \<equiv> TokenType 5"
abbreviation NUMBER :: TokenType where "NUMBER \<equiv> TokenType 6"
abbreviation LPAREN :: TokenType where "LPAREN \<equiv> TokenType 7"
abbreviation RPAREN :: TokenType where "RPAREN \<equiv> TokenType 8"
abbreviation COMMA :: TokenType where "COMMA \<equiv> TokenType 9"
abbreviation SEMICOLON :: TokenType where "SEMICOLON \<equiv> TokenType 10"
abbreviation EQUAL :: TokenType where "EQUAL \<equiv> TokenType 11"
abbreviation COMMENT_IDENT :: TokenType where "COMMENT_IDENT \<equiv> TokenType 12"
abbreviation ACTION :: TokenType where "ACTION \<equiv> TokenType 13"
abbreviation AUTO_INCREMENT :: TokenType where "AUTO_INCREMENT \<equiv> TokenType 14"
abbreviation AVG_ROW_LENGTH :: TokenType where "AVG_ROW_LENGTH \<equiv> TokenType 15"
abbreviation BIGINT :: TokenType where "BIGINT \<equiv> TokenType 16"
abbreviation BINARY :: TokenType where "BINARY \<equiv> TokenType 17"
abbreviation BIT :: TokenType where "BIT \<equiv> TokenType 18"
abbreviation BLOB :: TokenType where "BLOB \<equiv> TokenType 19"
abbreviation BTREE :: TokenType where "BTREE \<equiv> TokenType 20"
abbreviation CASCADE :: TokenType where "CASCADE \<equiv> TokenType 21"
abbreviation CHAR' :: TokenType where "CHAR' \<equiv> TokenType 22"
abbreviation CHARACTER :: TokenType where "CHARACTER \<equiv> TokenType 23"
abbreviation CHECK :: TokenType where "CHECK \<equiv> TokenType 24"
abbreviation CHECKSUM :: TokenType where "CHECKSUM \<equiv> TokenType 25"
abbreviation COLLATE :: TokenType where "COLLATE \<equiv> TokenType 26"
abbreviation COMMENT :: TokenType where "COMMENT \<equiv> TokenType 27"
abbreviation COMPACT :: TokenType where "COMPACT \<equiv> TokenType 28"
abbreviation COMPRESSED :: TokenType where "COMPRESSED \<equiv> TokenType 29"
abbreviation CONNECTION :: TokenType where "CONNECTION \<equiv> TokenType 30"
abbreviation CONSTRAINT :: TokenType where "CONSTRAINT \<equiv> TokenType 31"
abbreviation CREATE :: TokenType where "CREATE \<equiv> TokenType 32"
abbreviation CURRENT_TIMESTAMP :: TokenType where "CURRENT_TIMESTAMP \<equiv> TokenType 33"
abbreviation DATA :: TokenType where "DATA \<equiv> TokenType 34"
abbreviation DATABASE :: TokenType where "DATABASE \<equiv> TokenType 35"
abbreviation DATE :: TokenType where "DATE \<equiv> TokenType 36"
abbreviation DATETIME :: TokenType where "DATETIME \<equiv> TokenType 37"
abbreviation DECIMAL :: TokenType where "DECIMAL \<equiv> TokenType 38"
abbreviation DEFAULT :: TokenType where "DEFAULT \<equiv> TokenType 39"
abbreviation DELAY_KEY_WRITE :: TokenType where "DELAY_KEY_WRITE \<equiv> TokenType 40"
abbreviation DELETE :: TokenType where "DELETE \<equiv> TokenType 41"
abbreviation DIRECTORY :: TokenType where "DIRECTORY \<equiv> TokenType 42"
abbreviation DOUBLE :: TokenType where "DOUBLE \<equiv> TokenType 43"
abbreviation DROP :: TokenType where "DROP \<equiv> TokenType 44"
abbreviation DYNAMIC :: TokenType where "DYNAMIC \<equiv> TokenType 45"
abbreviation ENGINE :: TokenType where "ENGINE \<equiv> TokenType 46"
abbreviation EXISTS :: TokenType where "EXISTS \<equiv> TokenType 47"
abbreviation FIXED :: TokenType where "FIXED \<equiv> TokenType 48"
abbreviation FLOAT :: TokenType where "FLOAT \<equiv> TokenType 49"
abbreviation FOREIGN :: TokenType where "FOREIGN \<equiv> TokenType 50"
abbreviation FULL :: TokenType where "FULL \<equiv> TokenType 51"
abbreviation FULLTEXT :: TokenType where "FULLTEXT \<equiv> TokenType 52"
abbreviation HASH :: TokenType where "HASH \<equiv> TokenType 53"
abbreviation IF :: TokenType where "IF \<equiv> TokenType 54"
abbreviation INDEX :: TokenType where "INDEX \<equiv> TokenType 55"
abbreviation INSERT_METHOD :: TokenType where "INSERT_METHOD \<equiv> TokenType 56"
abbreviation INT' :: TokenType where "INT' \<equiv> TokenType 57"
abbreviation INTEGER :: TokenType where "INTEGER \<equiv> TokenType 58"
abbreviation KEY :: TokenType where "KEY \<equiv> TokenType 59"
abbreviation KEY_BLOCK_SIZE :: TokenType where "KEY_BLOCK_SIZE \<equiv> TokenType 60"
abbreviation LONGBLOB :: TokenType where "LONGBLOB \<equiv> TokenType 61"
abbreviation LONGTEXT :: TokenType where "LONGTEXT \<equiv> TokenType 62"
abbreviation MATCH :: TokenType where "MATCH \<equiv> TokenType 63"
abbreviation MAX_ROWS :: TokenType where "MAX_ROWS \<equiv> TokenType 64"
abbreviation MEDIUMBLOB :: TokenType where "MEDIUMBLOB \<equiv> TokenType 65"
abbreviation MEDIUMINT :: TokenType where "MEDIUMINT \<equiv> TokenType 66"
abbreviation MEDIUMTEXT :: TokenType where "MEDIUMTEXT \<equiv> TokenType 67"
abbreviation MIN_ROWS :: TokenType where "MIN_ROWS \<equiv> TokenType 68"
abbreviation NO :: TokenType where "NO \<equiv> TokenType 69"
abbreviation NOT' :: TokenType where "NOT' \<equiv> TokenType 70"
abbreviation NULL :: TokenType where "NULL \<equiv> TokenType 71"
abbreviation NUMERIC :: TokenType where "NUMERIC \<equiv> TokenType 72"
abbreviation ON :: TokenType where "ON \<equiv> TokenType 73"
abbreviation PACK_KEYS :: TokenType where "PACK_KEYS \<equiv> TokenType 74"
abbreviation PARTIAL :: TokenType where "PARTIAL \<equiv> TokenType 75"
abbreviation PASSWORD :: TokenType where "PASSWORD \<equiv> TokenType 76"
abbreviation PRIMARY :: TokenType where "PRIMARY \<equiv> TokenType 77"
abbreviation REAL :: TokenType where "REAL \<equiv> TokenType 78"
abbreviation REDUNDANT :: TokenType where "REDUNDANT \<equiv> TokenType 79"
abbreviation REFERENCES :: TokenType where "REFERENCES \<equiv> TokenType 80"
abbreviation RESTRICT :: TokenType where "RESTRICT \<equiv> TokenType 81"
abbreviation ROW_FORMAT :: TokenType where "ROW_FORMAT \<equiv> TokenType 82"
abbreviation SET :: TokenType where "SET \<equiv> TokenType 83"
abbreviation SIMPLE :: TokenType where "SIMPLE \<equiv> TokenType 84"
abbreviation SMALLINT :: TokenType where "SMALLINT \<equiv> TokenType 85"
abbreviation SPARTIAL :: TokenType where "SPARTIAL \<equiv> TokenType 86"
abbreviation STATS_AUTO_RECALC :: TokenType where "STATS_AUTO_RECALC \<equiv> TokenType 87"
abbreviation STATS_PERSISTENT :: TokenType where "STATS_PERSISTENT \<equiv> TokenType 88"
abbreviation STATS_SAMPLE_PAGES :: TokenType where "STATS_SAMPLE_PAGES \<equiv> TokenType 89"
abbreviation TABLE :: TokenType where "TABLE \<equiv> TokenType 90"
abbreviation TABLESPACE :: TokenType where "TABLESPACE \<equiv> TokenType 91"
abbreviation TEMPORARY :: TokenType where "TEMPORARY \<equiv> TokenType 92"
abbreviation TEXT :: TokenType where "TEXT \<equiv> TokenType 93"
abbreviation TIME :: TokenType where "TIME \<equiv> TokenType 94"
abbreviation TIMESTAMP :: TokenType where "TIMESTAMP \<equiv> TokenType 95"
abbreviation TINYBLOB :: TokenType where "TINYBLOB \<equiv> TokenType 96"
abbreviation TINYINT :: TokenType where "TINYINT \<equiv> TokenType 97"
abbreviation TINYTEXT :: TokenType where "TINYTEXT \<equiv> TokenType 98"
abbreviation UNION :: TokenType where "UNION \<equiv> TokenType 99"
abbreviation UNIQUE :: TokenType where "UNIQUE \<equiv> TokenType 100"
abbreviation UNSIGNED :: TokenType where "UNSIGNED \<equiv> TokenType 101"
abbreviation UPDATE :: TokenType where "UPDATE \<equiv> TokenType 102"
abbreviation USE :: TokenType where "USE \<equiv> TokenType 103"
abbreviation USING :: TokenType where "USING \<equiv> TokenType 104"
abbreviation VARBINARY :: TokenType where "VARBINARY \<equiv> TokenType 105"
abbreviation VARCHAR :: TokenType where "VARCHAR \<equiv> TokenType 106"
abbreviation YEAR :: TokenType where "YEAR \<equiv> TokenType 107"
abbreviation ZEROFILL :: TokenType where "ZEROFILL \<equiv> TokenType 108"

text \<open>
  A token carries its kind and its literal text (the parser reads nothing else of it;
  the position only serves the rendering of error messages and is left out).
\<close>

record Token =
  Type :: TokenType
  Value :: string

definition eofToken :: Token where
  "eofToken = \<lparr>Type = EOF, Value = []\<rparr>"

section \<open>Errors and results\<close>

text \<open>
  The error values the parser builds: \<^verbatim>\<open>newParseError(ctx, t, msg)\<close> (a \<^verbatim>\<open>ParseError\<close>
  naming the offending token), \<^verbatim>\<open>errors.New(msg)\<close>, \<^verbatim>\<open>errors.Wrap(err, msg)\<close> and
  \<^verbatim>\<open>errors.Ignorable(err)\<close>, whose argument may be \<^verbatim>\<open>nil\<close>.
\<close>

datatype error =
    ParseError Token string
  | ErrorNew string
  | ErrorWrap error string
  | Ignorable "error option"

text \<open>
  Modelled from the spec: \<^verbatim>\<open>errors.IsIgnorable\<close> lives in the package
  \<^verbatim>\<open>internal/errors\<close>; an ignorable result is the one built by \<^verbatim>\<open>errors.Ignorable\<close>.
\<close>

fun IsIgnorable :: "error \<Rightarrow> bool" where
  "IsIgnorable (Ignorable _) = True"
| "IsIgnorable _ = False"

text \<open>The type assertion \<^verbatim>\<open>err.(ParseError)\<close> of \<^verbatim>\<open>Parse\<close>.\<close>

fun isParseError :: "error \<Rightarrow> bool" where
  "isParseError (ParseError _ _) = True"
| "isParseError _ = False"

section \<open>The parse context and its lookahead buffer\<close>

text \<open>
  The array \<^verbatim>\<open>peekTokens [3]*Token\<close>: three pointers, \<open>None\<close> for \<^verbatim>\<open>nil\<close>. Reading
  or writing outside the indices 0..2 panics in Go, which \<open>slot_get\<close> and \<open>slot_set\<close>
  report as \<open>None\<close>.
\<close>

type_synonym slots = "Token option \<times> Token option \<times> Token option"

fun slot_get :: "slots \<Rightarrow> int \<Rightarrow> Token option option" where
  "slot_get (a, b, c) i =
     (if i = 0 then Some a else if i = 1 then Some b else if i = 2 then Some c else None)"

fun slot_set :: "slots \<Rightarrow> int \<Rightarrow> Token option \<Rightarrow> slots option" where
  "slot_set (a, b, c) i v =
     (if i = 0 then Some (v, b, c) else if i = 1 then Some (a, v, c)
      else if i = 2 then Some (a, b, v) else None)"

text \<open>
  \<^verbatim>\<open>parseCtx\<close>. The channel \<^verbatim>\<open>lexsrc\<close> is the list of the tokens the lexer still
  delivers before it closes the channel. \<open>Context_Done\<close> says that the embedded
  context has been cancelled. A Go \<^verbatim>\<open>select\<close> with several ready cases takes any one of
  them; \<open>select_Done\<close> is the choice the runtime makes in \<^verbatim>\<open>peek\<close> when the context is
  cancelled: the \<^verbatim>\<open>Done\<close> case (\<open>True\<close>) or the receive from the channel (\<open>False\<close>).
\<close>

record parseCtx =
  Context_Done :: bool
  select_Done :: bool
  input :: string
  lexsrc :: "Token list"
  peekCount :: int
  peekTokens :: slots

definition newParseCtx :: "bool \<Rightarrow> bool \<Rightarrow> parseCtx" where
  "newParseCtx cancelled pick =
     \<lparr>Context_Done = cancelled, select_Done = pick, input = [], lexsrc = [],
      peekCount = - 1, peekTokens = (None, None, None)\<rparr>"

text \<open>
  What a Go function of the parser does: it returns a value (\<open>Ok\<close>), returns an error
  (\<open>Err\<close>), panics, or is cut off by the fuel that bounds the model's loops. The
  context is mutated in place in Go, so every return hands on the context it leaves.
\<close>

datatype 'a res =
    Ok 'a parseCtx
  | Err error parseCtx
  | Panic string
  | OutOfFuel

fun andThen :: "'a res \<Rightarrow> ('a \<Rightarrow> parseCtx \<Rightarrow> 'b res) \<Rightarrow> 'b res" where
  "andThen (Ok a c) f = f a c"
| "andThen (Err e c) f = Err e c"
| "andThen (Panic s) f = Panic s"
| "andThen OutOfFuel f = OutOfFuel"

definition peek :: "parseCtx \<Rightarrow> Token option res" where
  "peek c =
     (if peekCount c < 0 then
        (if Context_Done c \<and> select_Done c then Ok (Some eofToken) c
         else
           (case lexsrc c of
              [] \<Rightarrow> Ok (Some eofToken) c
            | t # ts \<Rightarrow>
                (let n = peekCount c + 1 in
                 case slot_set (peekTokens c) n (Some t) of
                   None \<Rightarrow> Panic ''index out of range''
                 | Some s \<Rightarrow>
                     (case slot_get s n of
                        None \<Rightarrow> Panic ''index out of range''
                      | Some p \<Rightarrow> Ok p (c\<lparr>lexsrc := ts, peekCount := n, peekTokens := s\<rparr>)))))
      else
        (case slot_get (peekTokens c) (peekCount c) of
           None \<Rightarrow> Panic ''index out of range''
         | Some p \<Rightarrow> Ok p c))"

definition advance :: "parseCtx \<Rightarrow> parseCtx" where
  "advance c = (if peekCount c \<ge> 0 then c\<lparr>peekCount := peekCount c - 1\<rparr> else c)"

definition rewind :: "parseCtx \<Rightarrow> parseCtx" where
  "rewind c = (if peekCount c < 2 then c\<lparr>peekCount := peekCount c + 1\<rparr> else c)"

definition next' :: "parseCtx \<Rightarrow> Token option res" where
  "next' c = andThen (peek c) (\<lambda>t c. Ok t (advance c))"

text \<open>
  Every caller reads \<^verbatim>\<open>t.Type\<close> of the pointer it gets from \<^verbatim>\<open>peek\<close> or \<^verbatim>\<open>next\<close> at
  once; on a \<^verbatim>\<open>nil\<close> pointer that read panics.
\<close>

definition tok :: "Token option res \<Rightarrow> Token res" where
  "tok r = andThen r (\<lambda>p c. case p of None \<Rightarrow> Panic ''nil pointer dereference'' | Some t \<Rightarrow> Ok t c)"

section \<open>Primitive matchers\<close>

function skipWhiteSpaces :: "parseCtx \<Rightarrow> unit res" where
  "skipWhiteSpaces c =
     (case tok (peek c) of
        Ok t c1 \<Rightarrow>
          (if Type t = SPACE \<or> Type t = COMMENT_IDENT then skipWhiteSpaces (advance c1)
           else Ok () c1)
      | Err e c1 \<Rightarrow> Err e c1
      | Panic s \<Rightarrow> Panic s
      | OutOfFuel \<Rightarrow> OutOfFuel)"
  by pat_completeness auto
termination
proof (relation "measure (\<lambda>c. length (lexsrc c) + nat (peekCount c + 1))")
  show "wf (measure (\<lambda>c. length (lexsrc c) + nat (peekCount c + 1)))"
    by simp
next
  fix c :: parseCtx and t c1
  assume p: "tok (peek c) = Ok t c1"
    and w: "Type t = SPACE \<or> Type t = COMMENT_IDENT"
  show "(advance c1, c) \<in> measure (\<lambda>c. length (lexsrc c) + nat (peekCount c + 1))"
  proof (cases "peekCount c < 0")
    case True
    with p w show ?thesis
      by (cases "peekTokens c")
         (auto simp: tok_def peek_def advance_def eofToken_def Let_def
               split: if_splits list.splits option.splits)
  next
    case False
    with p w show ?thesis
      by (cases "peekTokens c")
         (auto simp: tok_def peek_def advance_def split: if_splits option.splits)
  qed
qed

declare skipWhiteSpaces.simps [simp del]

text \<open>
  \<^verbatim>\<open>newParseError(ctx, t, msg)\<close>: the error names the offending token and the message.
\<close>

definition newParseError :: "parseCtx \<Rightarrow> Token \<Rightarrow> string \<Rightarrow> error" where
  "newParseError c t msg = ParseError t msg"

fun parseIdents_loop :: "TokenType list \<Rightarrow> string list \<Rightarrow> parseCtx \<Rightarrow> string list res" where
  "parseIdents_loop [] strs c = Ok strs c"
| "parseIdents_loop (ident # idents) strs c =
     andThen (skipWhiteSpaces c) (\<lambda>_ c.
     andThen (tok (next' c)) (\<lambda>t c.
       if Type t \<noteq> ident then Err (newParseError c t ''expected %v'') c
       else parseIdents_loop idents (strs @ [Value t]) c))"

definition parseIdents :: "TokenType list \<Rightarrow> parseCtx \<Rightarrow> string list res" where
  "parseIdents idents c = parseIdents_loop idents [] c"

definition eol :: "parseCtx \<Rightarrow> bool res" where
  "eol c =
     andThen (skipWhiteSpaces c) (\<lambda>_ c.
     andThen (tok (peek c)) (\<lambda>t c.
       if Type t = EOF \<or> Type t = SEMICOLON then Ok True (advance c)
       else Ok False c))"

section \<open>The statement model\<close>

text \<open>
  Modelled from the spec: the package \<^verbatim>\<open>statement\<close> (the AST and its constructors and
  setters) is not part of the parser's file. The records follow the data model of the
  specification: a freshly made node has its name (or kind), every flag false, every
  optional part absent, the null state unknown and the index type none; a setter
  overwrites one field; \<^verbatim>\<open>AddColumn\<close>, \<^verbatim>\<open>AddIndex\<close>, \<^verbatim>\<open>AddOption\<close> and \<^verbatim>\<open>AddColumns\<close>
  append in order.
\<close>

record Database =
  db_name :: string
  db_if_not_exists :: bool

record Length =
  len_value :: string
  len_decimal :: "string option"

datatype ColumnType =
    ColumnTypeInvalid
  | ColumnTypeBit | ColumnTypeTinyInt | ColumnTypeSmallInt | ColumnTypeMediumInt
  | ColumnTypeInt | ColumnTypeInteger | ColumnTypeBigInt
  | ColumnTypeReal | ColumnTypeDouble | ColumnTypeFloat
  | ColumnTypeDecimal | ColumnTypeNumeric
  | ColumnTypeDate | ColumnTypeTime | ColumnTypeTimestamp | ColumnTypeDateTime
  | ColumnTypeYear
  | ColumnTypeChar | ColumnTypeVarChar | ColumnTypeBinary | ColumnTypeVarBinary
  | ColumnTypeTinyBlob | ColumnTypeBlob | ColumnTypeMediumBlob | ColumnTypeLongBlob
  | ColumnTypeTinyText | ColumnTypeText | ColumnTypeMediumText | ColumnTypeLongText

datatype NullState = NullStateUnknown | NullStateNull | NullStateNotNull

record TableColumn =
  col_name :: string
  col_type :: ColumnType
  col_length :: "Length option"
  col_unsigned :: bool
  col_zerofill :: bool
  col_binary :: bool
  col_null_state :: NullState
  col_default :: "string option"
  col_auto_increment :: bool
  col_is_key :: bool
  col_is_unique :: bool
  col_is_primary :: bool
  col_comment :: "string option"

datatype IndexKind =
    IndexKindPrimaryKey | IndexKindUnique | IndexKindNormal
  | IndexKindFullText | IndexKindSpatial | IndexKindForeignKey

datatype IndexType = IndexTypeNone | IndexTypeBtree | IndexTypeHash

datatype ReferenceMatch = ReferenceMatchFull | ReferenceMatchPartial | ReferenceMatchSimple

datatype ReferenceOption =
    ReferenceOptionRestrict | ReferenceOptionCascade
  | ReferenceOptionSetNull | ReferenceOptionNoAction

record Reference =
  ref_table_name :: string
  ref_columns :: "string list"
  ref_match :: "ReferenceMatch option"
  ref_on_delete :: "ReferenceOption option"
  ref_on_update :: "ReferenceOption option"

record Index =
  idx_kind :: IndexKind
  idx_symbol :: "string option"
  idx_name :: "string option"
  idx_type :: IndexType
  idx_columns :: "string list"
  idx_reference :: "Reference option"

record Table =
  tbl_name :: string
  tbl_temporary :: bool
  tbl_if_not_exists :: bool
  tbl_columns :: "TableColumn list"
  tbl_indexes :: "Index list"
  tbl_options :: "(string \<times> string) list"

datatype Stmt = StmtDatabase Database | StmtTable Table

definition NewDatabase :: "string \<Rightarrow> Database" where
  "NewDatabase n = \<lparr>db_name = n, db_if_not_exists = False\<rparr>"

definition NewLength :: "string \<Rightarrow> Length" where
  "NewLength v = \<lparr>len_value = v, len_decimal = None\<rparr>"

definition SetDecimal :: "string \<Rightarrow> Length \<Rightarrow> Length" where
  "SetDecimal d l = l\<lparr>len_decimal := Some d\<rparr>"

definition NewTableColumn :: "string \<Rightarrow> TableColumn" where
  "NewTableColumn n =
     \<lparr>col_name = n, col_type = ColumnTypeInvalid, col_length = None, col_unsigned = False,
      col_zerofill = False, col_binary = False, col_null_state = NullStateUnknown,
      col_default = None, col_auto_increment = False, col_is_key = False,
      col_is_unique = False, col_is_primary = False, col_comment = None\<rparr>"

definition NewReference :: Reference where
  "NewReference =
     \<lparr>ref_table_name = [], ref_columns = [], ref_match = None, ref_on_delete = None,
      ref_on_update = None\<rparr>"

definition NewIndex :: "IndexKind \<Rightarrow> Index" where
  "NewIndex k =
     \<lparr>idx_kind = k, idx_symbol = None, idx_name = None, idx_type = IndexTypeNone,
      idx_columns = [], idx_reference = None\<rparr>"

definition NewTable :: "string \<Rightarrow> Table" where
  "NewTable n =
     \<lparr>tbl_name = n, tbl_temporary = False, tbl_if_not_exists = False, tbl_columns = [],
      tbl_indexes = [], tbl_options = []\<rparr>"

definition NewTableOption :: "string \<Rightarrow> string \<Rightarrow> string \<times> string" where
  "NewTableOption k v = (k, v)"

definition AddOption :: "string \<times> string \<Rightarrow> Table \<Rightarrow> Table" where
  "AddOption opt t = t\<lparr>tbl_options := tbl_options t @ [opt]\<rparr>"

definition AddColumn :: "TableColumn \<Rightarrow> Table \<Rightarrow> Table" where
  "AddColumn col t = t\<lparr>tbl_columns := tbl_columns t @ [col]\<rparr>"

definition AddIndex :: "Index \<Rightarrow> Table \<Rightarrow> Table" where
  "AddIndex idx t = t\<lparr>tbl_indexes := tbl_indexes t @ [idx]\<rparr>"

definition Index_AddColumns :: "string list \<Rightarrow> Index \<Rightarrow> Index" where
  "Index_AddColumns cols idx = idx\<lparr>idx_columns := idx_columns idx @ cols\<rparr>"

definition Reference_AddColumns :: "string list \<Rightarrow> Reference \<Rightarrow> Reference" where
  "Reference_AddColumns cols r = r\<lparr>ref_columns := ref_columns r @ cols\<rparr>"

definition SetOnDelete :: "ReferenceOption \<Rightarrow> Reference \<Rightarrow> Reference" where
  "SetOnDelete a r = r\<lparr>ref_on_delete := Some a\<rparr>"

definition SetOnUpdate :: "ReferenceOption \<Rightarrow> Reference \<Rightarrow> Reference" where
  "SetOnUpdate a r = r\<lparr>ref_on_update := Some a\<rparr>"

section \<open>Column option ranks\<close>

text \<open>
  Modelled from the spec: the \<^verbatim>\<open>colopt\<close> constants are declared outside the parser's
  file. Each option keyword has a rank that is a bit flag, in the order in which the
  specification lists the recognised options (size, precision and scale, optional
  scale, \<^verbatim>\<open>UNSIGNED\<close>, \<^verbatim>\<open>ZEROFILL\<close>, \<^verbatim>\<open>BINARY\<close>, the null state, \<^verbatim>\<open>DEFAULT\<close>,
  \<^verbatim>\<open>AUTO_INCREMENT\<close>, the key family, \<^verbatim>\<open>COMMENT\<close>), the Go idiom \<^verbatim>\<open>1 << iota\<close>. The
  capability sets of the column types: the integer types take a digit width,
  \<^verbatim>\<open>UNSIGNED\<close> and \<^verbatim>\<open>ZEROFILL\<close>; the decimal types a precision and scale (the scale
  optional for \<^verbatim>\<open>DECIMAL\<close> and \<^verbatim>\<open>NUMERIC\<close>) with \<^verbatim>\<open>UNSIGNED\<close> and \<^verbatim>\<open>ZEROFILL\<close>; the
  character types a size and \<^verbatim>\<open>BINARY\<close>; the time and binary types a size.
\<close>

definition coloptSize :: int where "coloptSize = 1"
definition coloptDecimalSize :: int where "coloptDecimalSize = 2"
definition coloptDecimalOptionalSize :: int where "coloptDecimalOptionalSize = 4"
definition coloptUnsigned :: int where "coloptUnsigned = 8"
definition coloptZerofill :: int where "coloptZerofill = 16"
definition coloptBinary :: int where "coloptBinary = 32"
definition coloptNull :: int where "coloptNull = 64"
definition coloptDefault :: int where "coloptDefault = 128"
definition coloptAutoIncrement :: int where "coloptAutoIncrement = 256"
definition coloptKey :: int where "coloptKey = 512"
definition coloptComment :: int where "coloptComment = 1024"

definition coloptFlagNone :: int where
  "coloptFlagNone = 0"
definition coloptFlagDigit :: int where
  "coloptFlagDigit = coloptSize OR coloptUnsigned OR coloptZerofill"
definition coloptFlagDecimal :: int where
  "coloptFlagDecimal = coloptDecimalSize OR coloptUnsigned OR coloptZerofill"
definition coloptFlagDecimalOptional :: int where
  "coloptFlagDecimalOptional = coloptDecimalOptionalSize OR coloptUnsigned OR coloptZerofill"
definition coloptFlagTime :: int where
  "coloptFlagTime = coloptSize"
definition coloptFlagChar :: int where
  "coloptFlagChar = coloptSize OR coloptBinary"
definition coloptFlagBinary :: int where
  "coloptFlagBinary = coloptSize"

section \<open>Index and reference sub-grammars\<close>

text \<open>
  The loops of the grammar are bounded by fuel: one unit for each round of a loop, the
  rounds of an inner loop counted against what the enclosing round has left. A loop
  that runs out returns \<open>OutOfFuel\<close>.
\<close>

primrec parseColumnIndexColName_loop :: "nat \<Rightarrow> string list \<Rightarrow> parseCtx \<Rightarrow> string list res" where
  "parseColumnIndexColName_loop 0 cols c = OutOfFuel"
| "parseColumnIndexColName_loop (Suc n) cols c =
     andThen (skipWhiteSpaces c) (\<lambda>_ c.
     andThen (tok (next' c)) (\<lambda>t c.
       if \<not> (Type t = IDENT \<or> Type t = BACKTICK_IDENT)
       then Err (newParseError c t ''should IDENT or BACKTICK_IDENT'') c
       else
         andThen (skipWhiteSpaces c) (\<lambda>_ c.
         andThen (tok (next' c)) (\<lambda>t' c.
           if Type t' = COMMA then parseColumnIndexColName_loop n (cols @ [Value t]) c
           else if Type t' = RPAREN then Ok (cols @ [Value t]) c
           else Err (newParseError c t' ''should , or )'') c))))"

text \<open>
  The container is an \<^verbatim>\<open>Index\<close> or a \<^verbatim>\<open>Reference\<close>; \<open>AddColumns\<close> is its method.
\<close>

definition parseColumnIndexColName ::
  "nat \<Rightarrow> (string list \<Rightarrow> 'a \<Rightarrow> 'a) \<Rightarrow> 'a \<Rightarrow> parseCtx \<Rightarrow> 'a res" where
  "parseColumnIndexColName n AddColumns container c =
     andThen (skipWhiteSpaces c) (\<lambda>_ c.
     andThen (tok (next' c)) (\<lambda>t c.
       if Type t \<noteq> LPAREN then Err (newParseError c t ''should ('') c
       else
         andThen (parseColumnIndexColName_loop n [] c) (\<lambda>cols c.
           Ok (AddColumns cols container) c)))"

definition parseColumnIndexName :: "Index \<Rightarrow> parseCtx \<Rightarrow> Index res" where
  "parseColumnIndexName index c =
     andThen (skipWhiteSpaces c) (\<lambda>_ c.
     andThen (tok (peek c)) (\<lambda>t c.
       if Type t = BACKTICK_IDENT \<or> Type t = IDENT
       then Ok (index\<lparr>idx_name := Some (Value t)\<rparr>) (advance c)
       else Ok index c))"

definition parseColumnIndexTypeUsing :: "Index \<Rightarrow> parseCtx \<Rightarrow> Index res" where
  "parseColumnIndexTypeUsing index c =
     andThen (tok (next' c)) (\<lambda>t c.
       if Type t \<noteq> USING then Err (ErrorNew ''expected USING'') c
       else
         andThen (skipWhiteSpaces c) (\<lambda>_ c.
         andThen (tok (next' c)) (\<lambda>t c.
           if Type t = BTREE then Ok (index\<lparr>idx_type := IndexTypeBtree\<rparr>) c
           else if Type t = HASH then Ok (index\<lparr>idx_type := IndexTypeHash\<rparr>) c
           else Err (newParseError c t ''should BTREE or HASH'') c)))"

definition parseColumnIndexType :: "Index \<Rightarrow> parseCtx \<Rightarrow> Index res" where
  "parseColumnIndexType index c =
     andThen (skipWhiteSpaces c) (\<lambda>_ c.
     andThen (tok (peek c)) (\<lambda>t c.
       if Type t = USING then parseColumnIndexTypeUsing index c
       else Ok (index\<lparr>idx_type := IndexTypeNone\<rparr>) c))"

definition parseColumnIndexPrimaryKey :: "nat \<Rightarrow> Index \<Rightarrow> parseCtx \<Rightarrow> Index res" where
  "parseColumnIndexPrimaryKey n index c =
     andThen (skipWhiteSpaces c) (\<lambda>_ c.
     andThen (tok (next' c)) (\<lambda>t c.
       if Type t \<noteq> KEY then Err (newParseError c t ''should KEY'') c
       else
         andThen (parseColumnIndexType index c) (\<lambda>index c.
           parseColumnIndexColName n Index_AddColumns index c)))"

definition parseColumnIndexUniqueKey :: "nat \<Rightarrow> Index \<Rightarrow> parseCtx \<Rightarrow> Index res" where
  "parseColumnIndexUniqueKey n index c =
     andThen (skipWhiteSpaces c) (\<lambda>_ c.
     andThen (tok (peek c)) (\<lambda>t c.
     andThen (Ok () (if Type t = KEY \<or> Type t = INDEX then advance c else c)) (\<lambda>_ c.
     andThen (parseColumnIndexName index c) (\<lambda>index c.
     andThen (parseColumnIndexType index c) (\<lambda>index c.
       parseColumnIndexColName n Index_AddColumns index c)))))"

definition parseColumnIndexKey :: "nat \<Rightarrow> Index \<Rightarrow> parseCtx \<Rightarrow> Index res" where
  "parseColumnIndexKey n index c =
     andThen (parseColumnIndexName index c) (\<lambda>index c.
     andThen (parseColumnIndexType index c) (\<lambda>index c.
       parseColumnIndexColName n Index_AddColumns index c))"

definition parseColumnIndexFullTextKey :: "nat \<Rightarrow> Index \<Rightarrow> parseCtx \<Rightarrow> Index res" where
  "parseColumnIndexFullTextKey n index c =
     andThen (parseColumnIndexName index c) (\<lambda>index c.
       parseColumnIndexColName n Index_AddColumns index c)"

text \<open>
  \<^verbatim>\<open>parseReferenceOption(ctx, set)\<close>: \<open>set\<close> is \<^verbatim>\<open>r.SetOnDelete\<close> or \<^verbatim>\<open>r.SetOnUpdate\<close>, a
  method value bound to the reference \<open>r\<close> under construction.
\<close>

definition parseReferenceOption ::
  "(ReferenceOption \<Rightarrow> Reference \<Rightarrow> Reference) \<Rightarrow> Reference \<Rightarrow> parseCtx \<Rightarrow> Reference res" where
  "parseReferenceOption set' r c =
     andThen (skipWhiteSpaces c) (\<lambda>_ c.
     andThen (tok (next' c)) (\<lambda>t c.
       if Type t = RESTRICT then Ok (set' ReferenceOptionRestrict r) c
       else if Type t = CASCADE then Ok (set' ReferenceOptionCascade r) c
       else if Type t = SET then
         andThen (skipWhiteSpaces c) (\<lambda>_ c.
         andThen (tok (next' c)) (\<lambda>t c.
           if Type t \<noteq> NULL then Err (newParseError c t ''expected NULL'') c
           else Ok (set' ReferenceOptionSetNull r) c))
       else if Type t = NO then
         andThen (skipWhiteSpaces c) (\<lambda>_ c.
         andThen (tok (next' c)) (\<lambda>t c.
           if Type t \<noteq> ACTION then Err (newParseError c t ''expected ACTION'') c
           else Ok (set' ReferenceOptionNoAction r) c))
       else Err (newParseError c t ''expected RESTRICT, CASCADE, SET or NO'') c))"

text \<open>
  The loop \<^verbatim>\<open>for i := 0; i < 2; i++\<close> of \<^verbatim>\<open>parseColumnReference\<close>; the first argument is
  the number of rounds left, \<open>2 - i\<close>. An error of \<^verbatim>\<open>parseReferenceOption\<close> is wrapped.
\<close>

primrec parseColumnReference_loop :: "nat \<Rightarrow> Reference \<Rightarrow> parseCtx \<Rightarrow> Reference res" where
  "parseColumnReference_loop 0 r c = Ok r c"
| "parseColumnReference_loop (Suc k) r c =
     andThen (skipWhiteSpaces c) (\<lambda>_ c.
     andThen (tok (peek c)) (\<lambda>t c.
       if Type t \<noteq> ON then Ok r c
       else
         andThen (skipWhiteSpaces (advance c)) (\<lambda>_ c.
         andThen (tok (next' c)) (\<lambda>t c.
           if Type t = DELETE then
             (case parseReferenceOption SetOnDelete r c of
                Err e c \<Rightarrow> Err (ErrorWrap e ''failed to parse ON DELETE'') c
              | Ok r c \<Rightarrow> parseColumnReference_loop k r c
              | Panic s \<Rightarrow> Panic s
              | OutOfFuel \<Rightarrow> OutOfFuel)
           else if Type t = UPDATE then
             (case parseReferenceOption SetOnUpdate r c of
                Err e c \<Rightarrow> Err (ErrorWrap e ''failed to parse ON UPDATE'') c
              | Ok r c \<Rightarrow> Ok r c
              | Panic s \<Rightarrow> Panic s
              | OutOfFuel \<Rightarrow> OutOfFuel)
           else Err (newParseError c t ''expected DELETE or UPDATE'') c))))"

definition parseColumnReference :: "nat \<Rightarrow> Index \<Rightarrow> parseCtx \<Rightarrow> Index res" where
  "parseColumnReference n index c =
     andThen (skipWhiteSpaces c) (\<lambda>_ c.
     andThen (tok (next' c)) (\<lambda>t c.
       if Type t \<noteq> REFERENCES then Err (newParseError c t ''expected REFERENCES'') c
       else
         andThen (skipWhiteSpaces c) (\<lambda>_ c.
         andThen (tok (next' c)) (\<lambda>t c.
           if \<not> (Type t = BACKTICK_IDENT \<or> Type t = IDENT)
           then Err (newParseError c t ''should IDENT or BACKTICK_IDENT'') c
           else
             andThen (parseColumnIndexColName n Reference_AddColumns
                        (NewReference\<lparr>ref_table_name := Value t\<rparr>) c) (\<lambda>r c.
             andThen (skipWhiteSpaces c) (\<lambda>_ c.
             andThen (tok (peek c)) (\<lambda>t c.
             andThen
               (if Type t = MATCH then
                  andThen (skipWhiteSpaces (advance c)) (\<lambda>_ c.
                  andThen (tok (next' c)) (\<lambda>t c.
                  andThen
                    (if Type t = FULL then Ok (r\<lparr>ref_match := Some ReferenceMatchFull\<rparr>) c
                     else if Type t = PARTIAL then Ok (r\<lparr>ref_match := Some ReferenceMatchPartial\<rparr>) c
                     else if Type t = SIMPLE then Ok (r\<lparr>ref_match := Some ReferenceMatchSimple\<rparr>) c
                     else Err (newParseError c t ''should FULL, PARTIAL or SIMPLE'') c) (\<lambda>r c.
                  andThen (skipWhiteSpaces c) (\<lambda>_ c. Ok r c))))
                else Ok r c) (\<lambda>r c.
             andThen (parseColumnReference_loop 2 r c) (\<lambda>r c.
               Ok (index\<lparr>idx_reference := Some r\<rparr>) c)))))))))"

definition parseColumnIndexForeignKey :: "nat \<Rightarrow> Index \<Rightarrow> parseCtx \<Rightarrow> Index res" where
  "parseColumnIndexForeignKey n index c =
     andThen (skipWhiteSpaces c) (\<lambda>_ c.
     andThen (tok (next' c)) (\<lambda>t c.
       if Type t \<noteq> KEY then Err (newParseError c t ''should KEY'') c
       else
         andThen (parseColumnIndexName index c) (\<lambda>index c.
         andThen (parseColumnIndexColName n Index_AddColumns index c) (\<lambda>index c.
         andThen (skipWhiteSpaces c) (\<lambda>_ c.
         andThen (tok (peek c)) (\<lambda>t c.
           if Type t = REFERENCES then parseColumnReference n index c
           else Ok index c))))))"

section \<open>Column type and options\<close>

text \<open>
  The closure \<^verbatim>\<open>check\<close> of \<^verbatim>\<open>parseColumnOption\<close>: \<open>f\<close> is the set of permitted ranks,
  \<open>pos\<close> the current rank, which the closure overwrites when it accepts; the result is
  the returned boolean and the value of \<open>pos\<close> afterwards.
\<close>

definition check :: "int \<Rightarrow> int \<Rightarrow> int \<Rightarrow> bool \<times> int" where
  "check f pos f' =
     (if pos > f' then (False, pos)
      else if f OR f' \<noteq> f then (False, pos)
      else (True, f'))"

text \<open>Indexing the slice of strings that \<^verbatim>\<open>parseIdents\<close> returns.\<close>

definition str_at :: "string list \<Rightarrow> nat \<Rightarrow> string option" where
  "str_at strs i = (if i < length strs then Some (strs ! i) else None)"

primrec parseColumnOption_loop ::
  "nat \<Rightarrow> int \<Rightarrow> int \<Rightarrow> TableColumn \<Rightarrow> parseCtx \<Rightarrow> TableColumn res" where
  "parseColumnOption_loop 0 f pos col c = OutOfFuel"
| "parseColumnOption_loop (Suc n) f pos col c =
     andThen (skipWhiteSpaces c) (\<lambda>_ c.
     andThen (tok (next' c)) (\<lambda>t c.
       if Type t = LPAREN then
         (if fst (check f pos coloptSize) then
            andThen (skipWhiteSpaces c) (\<lambda>_ c.
            andThen (tok (next' c)) (\<lambda>t c.
              if Type t \<noteq> NUMBER then Err (newParseError c t ''expected NUMBER (column size)'') c
              else
                andThen (skipWhiteSpaces c) (\<lambda>_ c.
                andThen (tok (next' c)) (\<lambda>t' c.
                  if Type t' \<noteq> RPAREN
                  then Err (newParseError c t' ''expected RPAREN (column size)'') c
                  else parseColumnOption_loop n f (snd (check f pos coloptSize))
                         (col\<lparr>col_length := Some (NewLength (Value t))\<rparr>) c))))
          else if fst (check f pos coloptDecimalSize) then
            andThen (parseIdents [NUMBER, COMMA, NUMBER, RPAREN] c) (\<lambda>strs c.
              case (str_at strs 0, str_at strs 2) of
                (Some m, Some d) \<Rightarrow>
                  parseColumnOption_loop n f (snd (check f pos coloptDecimalSize))
                    (col\<lparr>col_length := Some (SetDecimal d (NewLength m))\<rparr>) c
              | _ \<Rightarrow> Panic ''index out of range'')
          else if fst (check f pos coloptDecimalOptionalSize) then
            andThen (skipWhiteSpaces c) (\<lambda>_ c.
            andThen (tok (next' c)) (\<lambda>t c.
              if Type t \<noteq> NUMBER
              then Err (newParseError c t ''expected NUMBER (decimal size `M`)'') c
              else
                andThen (skipWhiteSpaces c) (\<lambda>_ c.
                andThen (tok (next' c)) (\<lambda>t' c.
                  if Type t' = RPAREN then
                    parseColumnOption_loop n f (snd (check f pos coloptDecimalOptionalSize))
                      (col\<lparr>col_length := Some (NewLength (Value t))\<rparr>) c
                  else if Type t' \<noteq> COMMA
                  then Err (newParseError c t' ''expected COMMA (decimal size)'') c
                  else
                    andThen (skipWhiteSpaces c) (\<lambda>_ c.
                    andThen (tok (next' c)) (\<lambda>t'' c.
                      if Type t'' \<noteq> NUMBER
                      then Err (newParseError c t'' ''expected NUMBER (decimal size `D`)'') c
                      else
                        andThen (skipWhiteSpaces c) (\<lambda>_ c.
                        andThen (tok (next' c)) (\<lambda>t''' c.
                          if Type t''' \<noteq> RPAREN
                          then Err (newParseError c t''' ''expected RPARENT (decimal size)'') c
                          else
                            parseColumnOption_loop n f
                              (snd (check f pos coloptDecimalOptionalSize))
                              (col\<lparr>col_length :=
                                 Some (SetDecimal (Value t'') (NewLength (Value t)))\<rparr>) c))))))))
          else Err (newParseError c t
                 ''cant apply coloptSize, coloptDecimalSize, coloptDecimalOptionalSize'') c)
       else if Type t = UNSIGNED then
         (if \<not> fst (check f pos coloptUnsigned)
          then Err (newParseError c t ''cant apply UNSIGNED'') c
          else parseColumnOption_loop n f (snd (check f pos coloptUnsigned))
                 (col\<lparr>col_unsigned := True\<rparr>) c)
       else if Type t = ZEROFILL then
         (if \<not> fst (check f pos coloptZerofill)
          then Err (newParseError c t ''cant apply ZEROFILL'') c
          else parseColumnOption_loop n f (snd (check f pos coloptZerofill))
                 (col\<lparr>col_zerofill := True\<rparr>) c)
       else if Type t = BINARY then
         (if \<not> fst (check f pos coloptBinary)
          then Err (newParseError c t ''cant apply BINARY'') c
          else parseColumnOption_loop n f (snd (check f pos coloptBinary))
                 (col\<lparr>col_binary := True\<rparr>) c)
       else if Type t = NOT' then
         (if \<not> fst (check f pos coloptNull)
          then Err (newParseError c t ''cant apply NOT NULL'') c
          else
            andThen (skipWhiteSpaces c) (\<lambda>_ c.
            andThen (tok (next' c)) (\<lambda>t c.
              if Type t = NULL then
                parseColumnOption_loop n f (snd (check f pos coloptNull))
                  (col\<lparr>col_null_state := NullStateNotNull\<rparr>) c
              else Err (newParseError c t ''should NULL'') c)))
       else if Type t = NULL then
         (if \<not> fst (check f pos coloptNull)
          then Err (newParseError c t ''cant apply NULL'') c
          else parseColumnOption_loop n f (snd (check f pos coloptNull))
                 (col\<lparr>col_null_state := NullStateNull\<rparr>) c)
       else if Type t = DEFAULT then
         (if \<not> fst (check f pos coloptDefault)
          then Err (newParseError c t ''cant apply DEFAULT'') c
          else
            andThen (skipWhiteSpaces c) (\<lambda>_ c.
            andThen (tok (next' c)) (\<lambda>t c.
              if Type t = IDENT \<or> Type t = SINGLE_QUOTE_IDENT \<or> Type t = DOUBLE_QUOTE_IDENT
                 \<or> Type t = NUMBER \<or> Type t = CURRENT_TIMESTAMP \<or> Type t = NULL
              then
                parseColumnOption_loop n f (snd (check f pos coloptDefault))
                  (col\<lparr>col_default := Some (Value t)\<rparr>) c
              else Err (newParseError c t
                     ''should IDENT, SINGLE_QUOTE_IDENT, DOUBLE_QUOTE_IDENT, NUMBER, CURRENT_TIMESTAMP, NULL'') c)))
       else if Type t = AUTO_INCREMENT then
         (if \<not> fst (check f pos coloptAutoIncrement)
          then Err (newParseError c t ''cant apply AUTO_INCREMENT'') c
          else parseColumnOption_loop n f (snd (check f pos coloptAutoIncrement))
                 (col\<lparr>col_auto_increment := True\<rparr>) c)
       else if Type t = UNIQUE then
         (if \<not> fst (check f pos coloptKey)
          then Err (newParseError c t ''cant apply UNIQUE KEY'') c
          else
            andThen (skipWhiteSpaces c) (\<lambda>_ c.
            andThen (tok (next' c)) (\<lambda>t c.
              if Type t = KEY then
                parseColumnOption_loop n f (snd (check f pos coloptKey))
                  (col\<lparr>col_is_unique := True\<rparr>) (advance c)
              else parseColumnOption_loop n f (snd (check f pos coloptKey)) col c)))
       else if Type t = KEY then
         (if \<not> fst (check f pos coloptKey)
          then Err (newParseError c t ''cant apply KEY'') c
          else parseColumnOption_loop n f (snd (check f pos coloptKey))
                 (col\<lparr>col_is_key := True\<rparr>) c)
       else if Type t = PRIMARY then
         (if \<not> fst (check f pos coloptKey)
          then Err (newParseError c t ''cant apply PRIMARY KEY'') c
          else
            andThen (skipWhiteSpaces c) (\<lambda>_ c.
            andThen (tok (peek c)) (\<lambda>t c.
              if Type t = KEY then
                parseColumnOption_loop n f (snd (check f pos coloptKey))
                  (col\<lparr>col_is_primary := True\<rparr>) (advance c)
              else parseColumnOption_loop n f (snd (check f pos coloptKey)) col c)))
       else if Type t = COMMENT then
         (if \<not> fst (check f pos coloptComment)
          then Err (newParseError c t ''cant apply COMMENT'') c
          else
            andThen (skipWhiteSpaces c) (\<lambda>_ c.
            andThen (tok (next' c)) (\<lambda>t c.
              if Type t = SINGLE_QUOTE_IDENT then
                parseColumnOption_loop n f (snd (check f pos coloptComment))
                  (col\<lparr>col_comment := Some (Value t)\<rparr>) c
              else Err (newParseError c t ''should SINGLE_QUOTE_IDENT'') c)))
       else if Type t = COMMA then Ok col (rewind c)
       else if Type t = RPAREN then Ok col (rewind c)
       else Err (newParseError c t ''unexpected column options'') c))"

definition parseColumnOption :: "nat \<Rightarrow> TableColumn \<Rightarrow> int \<Rightarrow> parseCtx \<Rightarrow> TableColumn res" where
  "parseColumnOption n col f c =
     parseColumnOption_loop n
       (f OR coloptNull OR coloptDefault OR coloptAutoIncrement OR coloptKey OR coloptComment)
       0 col c"

text \<open>
  The \<^verbatim>\<open>switch\<close> of \<^verbatim>\<open>parseTableColumnSpec\<close>: the column type and the capability flags of
  a type keyword, \<open>None\<close> for the \<^verbatim>\<open>default\<close> case.
\<close>

definition columnTypeSwitch :: "TokenType \<Rightarrow> (ColumnType \<times> int) option" where
  "columnTypeSwitch ty =
     (if ty = BIT then Some (ColumnTypeBit, coloptSize)
      else if ty = TINYINT then Some (ColumnTypeTinyInt, coloptFlagDigit)
      else if ty = SMALLINT then Some (ColumnTypeSmallInt, coloptFlagDigit)
      else if ty = MEDIUMINT then Some (ColumnTypeMediumInt, coloptFlagDigit)
      else if ty = INT' then Some (ColumnTypeInt, coloptFlagDigit)
      else if ty = INTEGER then Some (ColumnTypeInteger, coloptFlagDigit)
      else if ty = BIGINT then Some (ColumnTypeBigInt, coloptFlagDigit)
      else if ty = REAL then Some (ColumnTypeReal, coloptFlagDecimal)
      else if ty = DOUBLE then Some (ColumnTypeDouble, coloptFlagDecimal)
      else if ty = FLOAT then Some (ColumnTypeFloat, coloptFlagDecimal)
      else if ty = DECIMAL then Some (ColumnTypeDecimal, coloptFlagDecimalOptional)
      else if ty = NUMERIC then Some (ColumnTypeNumeric, coloptFlagDecimalOptional)
      else if ty = DATE then Some (ColumnTypeDate, coloptFlagNone)
      else if ty = TIME then Some (ColumnTypeTime, coloptFlagTime)
      else if ty = TIMESTAMP then Some (ColumnTypeTimestamp, coloptFlagTime)
      else if ty = DATETIME then Some (ColumnTypeDateTime, coloptFlagTime)
      else if ty = YEAR then Some (ColumnTypeYear, coloptFlagNone)
      else if ty = CHAR' then Some (ColumnTypeChar, coloptFlagChar)
      else if ty = VARCHAR then Some (ColumnTypeVarChar, coloptFlagChar)
      else if ty = BINARY then Some (ColumnTypeBinary, coloptFlagBinary)
      else if ty = VARBINARY then Some (ColumnTypeVarBinary, coloptFlagBinary)
      else if ty = TINYBLOB then Some (ColumnTypeTinyBlob, coloptFlagNone)
      else if ty = BLOB then Some (ColumnTypeBlob, coloptFlagNone)
      else if ty = MEDIUMBLOB then Some (ColumnTypeMediumBlob, coloptFlagNone)
      else if ty = LONGBLOB then Some (ColumnTypeLongBlob, coloptFlagNone)
      else if ty = TINYTEXT then Some (ColumnTypeTinyText, coloptFlagChar)
      else if ty = TEXT then Some (ColumnTypeText, coloptFlagChar)
      else if ty = MEDIUMTEXT then Some (ColumnTypeMediumText, coloptFlagChar)
      else if ty = LONGTEXT then Some (ColumnTypeLongText, coloptFlagChar)
      else None)"

definition parseTableColumnSpec :: "nat \<Rightarrow> TableColumn \<Rightarrow> parseCtx \<Rightarrow> TableColumn res" where
  "parseTableColumnSpec n col c =
     andThen (skipWhiteSpaces c) (\<lambda>_ c.
     andThen (tok (next' c)) (\<lambda>t c.
       case columnTypeSwitch (Type t) of
         None \<Rightarrow> Err (newParseError c t ''not supported type'') c
       | Some (coltyp, colopt) \<Rightarrow> parseColumnOption n (col\<lparr>col_type := coltyp\<rparr>) colopt c))"

section \<open>Table options\<close>

text \<open>The closure \<^verbatim>\<open>setOption\<close> of \<^verbatim>\<open>parseCreateTableOptions\<close>.\<close>

definition setOption :: "string \<Rightarrow> TokenType list \<Rightarrow> Table \<Rightarrow> parseCtx \<Rightarrow> Table res" where
  "setOption key types stmt c =
     andThen (skipWhiteSpaces c) (\<lambda>_ c.
     andThen (tok (peek c)) (\<lambda>t c.
     andThen (if Type t = EQUAL then skipWhiteSpaces (advance c) else Ok () c) (\<lambda>_ c.
     andThen (tok (next' c)) (\<lambda>t c.
       if Type t \<in> set types then Ok (AddOption (NewTableOption key (Value t)) stmt) c
       else Err (newParseError c t ''should %v'') c))))"

primrec parseCreateTableOptions :: "nat \<Rightarrow> Table \<Rightarrow> parseCtx \<Rightarrow> Table res" where
  "parseCreateTableOptions 0 stmt c = OutOfFuel"
| "parseCreateTableOptions (Suc n) stmt c =
     andThen (skipWhiteSpaces c) (\<lambda>_ c.
     andThen (tok (next' c)) (\<lambda>t c.
       if Type t = ENGINE then
         andThen (setOption ''ENGINE'' [IDENT, BACKTICK_IDENT] stmt c)
           (parseCreateTableOptions n)
       else if Type t = AUTO_INCREMENT then
         andThen (setOption ''AUTO_INCREMENT'' [NUMBER] stmt c) (parseCreateTableOptions n)
       else if Type t = AVG_ROW_LENGTH then
         andThen (setOption ''AVG_ROW_LENGTH'' [NUMBER] stmt c) (parseCreateTableOptions n)
       else if Type t = DEFAULT then
         andThen (skipWhiteSpaces c) (\<lambda>_ c.
         andThen (tok (next' c)) (\<lambda>t c.
           if Type t = CHARACTER then
             andThen (skipWhiteSpaces c) (\<lambda>_ c.
             andThen (tok (next' c)) (\<lambda>t c.
               if Type t \<noteq> SET then Err (newParseError c t ''expected SET'') c
               else
                 andThen (setOption ''DEFAULT CHARACTER SET'' [IDENT, BACKTICK_IDENT] stmt c)
                   (parseCreateTableOptions n)))
           else if Type t = COLLATE then
             andThen (setOption ''DEFAULT COLLATE'' [IDENT, BACKTICK_IDENT] stmt c)
               (parseCreateTableOptions n)
           else Err (newParseError c t ''expected CHARACTER or COLLATE'') c))
       else if Type t = CHARACTER then
         andThen (skipWhiteSpaces c) (\<lambda>_ c.
         andThen (tok (next' c)) (\<lambda>t c.
           if Type t \<noteq> SET then Err (newParseError c t ''expected SET'') c
           else
             andThen (setOption ''DEFAULT CHARACTER SET'' [IDENT, BACKTICK_IDENT] stmt c)
               (parseCreateTableOptions n)))
       else if Type t = COLLATE then
         andThen (setOption ''DEFAULT COLLATE'' [IDENT, BACKTICK_IDENT] stmt c)
           (parseCreateTableOptions n)
       else if Type t = CHECKSUM then
         andThen (setOption ''CHECKSUM'' [NUMBER] stmt c) (parseCreateTableOptions n)
       else if Type t = COMMENT then
         andThen (setOption ''COMMENT'' [SINGLE_QUOTE_IDENT, DOUBLE_QUOTE_IDENT] stmt c)
           (parseCreateTableOptions n)
       else if Type t = CONNECTION then
         andThen (setOption ''CONNECTION'' [SINGLE_QUOTE_IDENT, DOUBLE_QUOTE_IDENT] stmt c)
           (parseCreateTableOptions n)
       else if Type t = DATA then
         andThen (skipWhiteSpaces c) (\<lambda>_ c.
         andThen (tok (next' c)) (\<lambda>t c.
           if Type t \<noteq> DIRECTORY then Err (newParseError c t ''should DIRECTORY'') c
           else
             andThen (setOption ''DATA DIRECTORY'' [SINGLE_QUOTE_IDENT, DOUBLE_QUOTE_IDENT] stmt c)
               (parseCreateTableOptions n)))
       else if Type t = DELAY_KEY_WRITE then
         andThen (setOption ''DELAY_KEY_WRITE'' [NUMBER] stmt c) (parseCreateTableOptions n)
       else if Type t = INDEX then
         andThen (skipWhiteSpaces c) (\<lambda>_ c.
         andThen (tok (next' c)) (\<lambda>t c.
           if Type t \<noteq> DIRECTORY then Err (newParseError c t ''should DIRECTORY'') c
           else
             andThen (setOption ''INDEX DIRECTORY'' [SINGLE_QUOTE_IDENT, DOUBLE_QUOTE_IDENT] stmt c)
               (parseCreateTableOptions n)))
       else if Type t = INSERT_METHOD then
         andThen (setOption ''INSERT_METHOD'' [IDENT] stmt c) (parseCreateTableOptions n)
       else if Type t = KEY_BLOCK_SIZE then
         andThen (setOption ''KEY_BLOCK_SIZE'' [NUMBER] stmt c) (parseCreateTableOptions n)
       else if Type t = MAX_ROWS then
         andThen (setOption ''MAX_ROWS'' [NUMBER] stmt c) (parseCreateTableOptions n)
       else if Type t = MIN_ROWS then
         andThen (setOption ''MIN_ROWS'' [NUMBER] stmt c) (parseCreateTableOptions n)
       else if Type t = PACK_KEYS then
         andThen (setOption ''PACK_KEYS'' [NUMBER, IDENT] stmt c) (parseCreateTableOptions n)
       else if Type t = PASSWORD then
         andThen (setOption ''PASSWORD'' [SINGLE_QUOTE_IDENT, DOUBLE_QUOTE_IDENT] stmt c)
           (parseCreateTableOptions n)
       else if Type t = ROW_FORMAT then
         andThen (setOption ''ROW_FORMAT''
                    [DEFAULT, DYNAMIC, FIXED, COMPRESSED, REDUNDANT, COMPACT] stmt c)
           (parseCreateTableOptions n)
       else if Type t = STATS_AUTO_RECALC then
         andThen (setOption ''STATS_AUTO_RECALC'' [NUMBER, DEFAULT] stmt c)
           (parseCreateTableOptions n)
       else if Type t = STATS_PERSISTENT then
         andThen (setOption ''STATS_PERSISTENT'' [NUMBER, DEFAULT] stmt c)
           (parseCreateTableOptions n)
       else if Type t = STATS_SAMPLE_PAGES then
         andThen (setOption ''STATS_SAMPLE_PAGES'' [NUMBER] stmt c) (parseCreateTableOptions n)
       else if Type t = TABLESPACE then Err (newParseError c t ''not support TABLESPACE'') c
       else if Type t = UNION then Err (newParseError c t ''not support UNION'') c
       else if Type t = EOF then Ok stmt c
       else if Type t = SEMICOLON then Ok stmt (rewind c)
       else Err (newParseError c t ''unexpected table options'') c))"

section \<open>The column, index and constraint list\<close>

text \<open>
  \<^verbatim>\<open>targetStmt\<close> holds the pending definition: an index, a column, or \<^verbatim>\<open>nil\<close> (\<open>None\<close>).
  \<^verbatim>\<open>appendStmt\<close> adds it to the table and panics in its \<^verbatim>\<open>default\<close> case, which a
  \<^verbatim>\<open>nil\<close> pending definition reaches; the result \<open>None\<close> stands for that panic.
\<close>

datatype target = TargetIndex Index | TargetColumn TableColumn

fun appendStmt :: "target option \<Rightarrow> Table \<Rightarrow> Table option" where
  "appendStmt (Some (TargetIndex t)) stmt = Some (AddIndex t stmt)"
| "appendStmt (Some (TargetColumn t)) stmt = Some (AddColumn t stmt)"
| "appendStmt None stmt = None"

definition setStmt ::
  "target option \<Rightarrow> Token \<Rightarrow> (parseCtx \<Rightarrow> target res) \<Rightarrow> parseCtx \<Rightarrow> target res" where
  "setStmt targetStmt t f c =
     (if targetStmt \<noteq> None
      then Err (newParseError c t ''previous column or index definition not terminated'') c
      else f c)"

text \<open>The function literal of the \<^verbatim>\<open>CONSTRAINT\<close> case.\<close>

definition parseConstraint :: "nat \<Rightarrow> parseCtx \<Rightarrow> target res" where
  "parseConstraint n c =
     andThen (skipWhiteSpaces c) (\<lambda>_ c.
     andThen (tok (peek c)) (\<lambda>t c.
     andThen
       (if Type t = IDENT \<or> Type t = BACKTICK_IDENT
        then andThen (skipWhiteSpaces (advance c)) (\<lambda>_ c. Ok (Value t) c)
        else Ok [] c) (\<lambda>sym c.
     andThen (tok (next' c)) (\<lambda>t c.
     andThen
       (if Type t = PRIMARY then
          parseColumnIndexPrimaryKey n (NewIndex IndexKindPrimaryKey) c
        else if Type t = UNIQUE then
          parseColumnIndexUniqueKey n (NewIndex IndexKindUnique) c
        else if Type t = FOREIGN then
          parseColumnIndexForeignKey n (NewIndex IndexKindForeignKey) c
        else Err (newParseError c t ''not supported'') c) (\<lambda>index c.
       Ok (TargetIndex (if length sym > 0 then index\<lparr>idx_symbol := Some sym\<rparr> else index)) c)))))"

definition asIndex :: "Index res \<Rightarrow> target res" where
  "asIndex r = andThen r (\<lambda>index c. Ok (TargetIndex index) c)"

primrec parseCreateTableFields_loop ::
  "nat \<Rightarrow> target option \<Rightarrow> Table \<Rightarrow> parseCtx \<Rightarrow> Table res" where
  "parseCreateTableFields_loop 0 targetStmt stmt c = OutOfFuel"
| "parseCreateTableFields_loop (Suc n) targetStmt stmt c =
     andThen (skipWhiteSpaces c) (\<lambda>_ c.
     andThen (tok (next' c)) (\<lambda>t c.
       if Type t = RPAREN then
         (case appendStmt targetStmt stmt of
            None \<Rightarrow> Panic ''unexpected targetStmt''
          | Some stmt \<Rightarrow>
              andThen (parseCreateTableOptions n stmt c) (\<lambda>stmt c.
              andThen (eol c) (\<lambda>b c.
                if \<not> b then Err (newParseError c t ''should EOL'') c
                else Ok stmt c)))
       else if Type t = COMMA then
         (if targetStmt = None then Err (newParseError c t ''unexpected COMMA'') c
          else
            (case appendStmt targetStmt stmt of
               None \<Rightarrow> Panic ''unexpected targetStmt''
             | Some stmt \<Rightarrow> parseCreateTableFields_loop n None stmt c))
       else if Type t = CONSTRAINT then
         andThen (setStmt targetStmt t (parseConstraint n) c) (\<lambda>target c.
           parseCreateTableFields_loop n (Some target) stmt c)
       else if Type t = PRIMARY then
         andThen (setStmt targetStmt t (\<lambda>c.
                    asIndex (parseColumnIndexPrimaryKey n (NewIndex IndexKindPrimaryKey) c)) c)
           (\<lambda>target c. parseCreateTableFields_loop n (Some target) stmt c)
       else if Type t = UNIQUE then
         andThen (setStmt targetStmt t (\<lambda>c.
                    asIndex (parseColumnIndexUniqueKey n (NewIndex IndexKindUnique) c)) c)
           (\<lambda>target c. parseCreateTableFields_loop n (Some target) stmt c)
       else if Type t = INDEX \<or> Type t = KEY then
         andThen (setStmt targetStmt t (\<lambda>c.
                    asIndex (parseColumnIndexKey n (NewIndex IndexKindNormal) c)) c)
           (\<lambda>target c. parseCreateTableFields_loop n (Some target) stmt c)
       else if Type t = FULLTEXT then
         andThen (setStmt targetStmt t (\<lambda>c.
                    asIndex (parseColumnIndexFullTextKey n (NewIndex IndexKindFullText) c)) c)
           (\<lambda>target c. parseCreateTableFields_loop n (Some target) stmt c)
       else if Type t = SPARTIAL then
         andThen (setStmt targetStmt t (\<lambda>c.
                    asIndex (parseColumnIndexFullTextKey n (NewIndex IndexKindSpatial) c)) c)
           (\<lambda>target c. parseCreateTableFields_loop n (Some target) stmt c)
       else if Type t = FOREIGN then
         andThen (setStmt targetStmt t (\<lambda>c.
                    asIndex (parseColumnIndexForeignKey n (NewIndex IndexKindForeignKey) c)) c)
           (\<lambda>target c. parseCreateTableFields_loop n (Some target) stmt c)
       else if Type t = CHECK then Err (newParseError c t ''not support CHECK'') c
       else if Type t = IDENT \<or> Type t = BACKTICK_IDENT then
         andThen (setStmt targetStmt t (\<lambda>c.
                    andThen (parseTableColumnSpec n (NewTableColumn (Value t)) c)
                      (\<lambda>col c. Ok (TargetColumn col) c)) c)
           (\<lambda>target c. parseCreateTableFields_loop n (Some target) stmt c)
       else Err (newParseError c t ''unexpected create table fields'') c))"

definition parseCreateTableFields :: "nat \<Rightarrow> Table \<Rightarrow> parseCtx \<Rightarrow> Table res" where
  "parseCreateTableFields n stmt c = parseCreateTableFields_loop n None stmt c"

section \<open>Statements\<close>

definition parseCreateTable :: "nat \<Rightarrow> parseCtx \<Rightarrow> Table res" where
  "parseCreateTable n c =
     andThen (tok (next' c)) (\<lambda>t c.
       if Type t \<noteq> TABLE then Err (ErrorNew ''expected TABLE'') c
       else
         andThen (skipWhiteSpaces c) (\<lambda>_ c.
         andThen (tok (peek c)) (\<lambda>t c.
         andThen
           (if Type t = TEMPORARY
            then andThen (skipWhiteSpaces (advance c)) (\<lambda>_ c. Ok True c)
            else Ok False c) (\<lambda>temporary c.
         andThen (tok (next' c)) (\<lambda>t c.
           if \<not> (Type t = IDENT \<or> Type t = BACKTICK_IDENT)
           then Err (newParseError c t ''expected IDENT or BACKTICK_IDENT'') c
           else
             andThen (skipWhiteSpaces c) (\<lambda>_ c.
             andThen (tok (peek c)) (\<lambda>t' c.
             andThen
               (if Type t' = IF then
                  (case parseIdents [NOT', EXISTS] (advance c) of
                     Err e c \<Rightarrow> Err (newParseError c t' ''should NOT EXISTS'') c
                   | Ok strs c \<Rightarrow>
                       andThen (skipWhiteSpaces c) (\<lambda>_ c.
                         Ok ((NewTable (Value t))\<lparr>tbl_temporary := temporary,
                               tbl_if_not_exists := True\<rparr>) c)
                   | Panic s \<Rightarrow> Panic s
                   | OutOfFuel \<Rightarrow> OutOfFuel)
                else Ok ((NewTable (Value t))\<lparr>tbl_temporary := temporary\<rparr>) c) (\<lambda>table c.
             andThen (tok (next' c)) (\<lambda>t c.
               if Type t \<noteq> LPAREN then Err (newParseError c t ''expected RPAREN'') c
               else parseCreateTableFields n table c)))))))))"

definition parseCreateDatabase :: "parseCtx \<Rightarrow> Database res" where
  "parseCreateDatabase c =
     andThen (tok (next' c)) (\<lambda>t c.
       if Type t \<noteq> DATABASE then Err (ErrorNew ''expected DATABASE'') c
       else
         andThen (skipWhiteSpaces c) (\<lambda>_ c.
         andThen (tok (peek c)) (\<lambda>t c.
         andThen
           (if Type t = IF
            then andThen (parseIdents [NOT', EXISTS] (advance c)) (\<lambda>_ c. Ok True c)
            else Ok False c) (\<lambda>notexists c.
         andThen (skipWhiteSpaces c) (\<lambda>_ c.
         andThen (tok (next' c)) (\<lambda>t c.
           if Type t = IDENT \<or> Type t = BACKTICK_IDENT then
             andThen (eol c) (\<lambda>_ c.
               Ok ((NewDatabase (Value t))\<lparr>db_if_not_exists := notexists\<rparr>) c)
           else Err (newParseError c t ''expected IDENT, BACKTICK_IDENT or IF'') c))))))"

text \<open>
  \<^verbatim>\<open>parseCreate\<close> returns a statement, a fatal error, or, after a \<^verbatim>\<open>CREATE DATABASE\<close>
  that parsed, the error value \<^verbatim>\<open>errors.Ignorable(nil)\<close>.
\<close>

definition parseCreate :: "nat \<Rightarrow> parseCtx \<Rightarrow> Stmt res" where
  "parseCreate n c =
     andThen (tok (next' c)) (\<lambda>t c.
       if Type t \<noteq> CREATE then Err (ErrorNew ''expected CREATE'') c
       else
         andThen (skipWhiteSpaces c) (\<lambda>_ c.
         andThen (tok (peek c)) (\<lambda>t c.
           if Type t = DATABASE then
             andThen (parseCreateDatabase c) (\<lambda>_ c. Err (Ignorable None) c)
           else if Type t = TABLE then
             andThen (parseCreateTable n c) (\<lambda>table c. Ok (StmtTable table) c)
           else Err (newParseError c t ''expected DATABASE or TABLE'') c)))"

text \<open>The loop \<^verbatim>\<open>S1\<close> of \<^verbatim>\<open>Parse\<close>, which runs until \<^verbatim>\<open>eol\<close> answers true.\<close>

primrec Parse_S1 :: "nat \<Rightarrow> parseCtx \<Rightarrow> unit res" where
  "Parse_S1 0 c = OutOfFuel"
| "Parse_S1 (Suc n) c =
     andThen (eol c) (\<lambda>b c. if b then Ok () c else Parse_S1 n c)"

text \<open>
  The loop \<^verbatim>\<open>LOOP\<close> of \<^verbatim>\<open>Parse\<close>. The value of \<open>Ok\<close> is the pair that \<^verbatim>\<open>Parse\<close> returns:
  the statements (the empty list for the \<^verbatim>\<open>nil\<close> slice) and the error, if any.
\<close>

primrec Parse_loop ::
  "nat \<Rightarrow> Stmt list \<Rightarrow> parseCtx \<Rightarrow> (Stmt list \<times> error option) res" where
  "Parse_loop 0 stmts c = OutOfFuel"
| "Parse_loop (Suc n) stmts c =
     andThen (skipWhiteSpaces c) (\<lambda>_ c.
     andThen (tok (peek c)) (\<lambda>t c.
       if Type t = CREATE then
         (case parseCreate n c of
            Err err c \<Rightarrow>
              if IsIgnorable err then Parse_loop n stmts c
              else if isParseError err then Ok ([], Some err) c
              else Ok ([], Some (ErrorWrap err ''failed to parse create'')) c
          | Ok stmt c \<Rightarrow> Parse_loop n (stmts @ [stmt]) c
          | Panic s \<Rightarrow> Panic s
          | OutOfFuel \<Rightarrow> OutOfFuel)
       else if Type t = COMMENT_IDENT then Parse_loop n stmts (advance c)
       else if Type t = DROP \<or> Type t = SET \<or> Type t = USE then
         andThen (Parse_S1 n c) (\<lambda>_ c. Parse_loop n stmts c)
       else if Type t = EOF then Ok (stmts, None) (advance c)
       else Ok ([], Some (newParseError c t ''expected CREATE, COMMENT_IDENT or EOF'')) c))"

text \<open>
  \<^verbatim>\<open>Parse\<close>. \<open>Lex\<close> is the lexer, which is not part of the parser's file: it maps the
  source text to the tokens it sends before it closes the channel. The context of
  the parse is cancelled only by the deferred \<^verbatim>\<open>cancel()\<close>, after \<^verbatim>\<open>Parse\<close> has returned.
\<close>

definition Parse :: "(string \<Rightarrow> Token list) \<Rightarrow> nat \<Rightarrow> string \<Rightarrow> (Stmt list \<times> error option) res" where
  "Parse Lex fuel src =
     Parse_loop fuel [] ((newParseCtx False False)\<lparr>input := src, lexsrc := Lex src\<rparr>)"

text \<open>What a run returned, if it returned.\<close>

fun returned :: "'a res \<Rightarrow> 'a option" where
  "returned (Ok a c) = Some a"
| "returned _ = None"

section \<open>Token streams\<close>

text \<open>
  The statements below are given to the parser as the token streams the lexer sends
  for them: every word and punctuation mark is a token, a run of blanks is a \<open>SPACE\<close>
  token, a comment a \<open>COMMENT_IDENT\<close> token, and the stream ends with an \<open>EOF\<close> token.
  \<open>spaces ws\<close> says that \<open>ws\<close> is a run of blank and comment tokens, of any length.
\<close>

definition token :: "TokenType \<Rightarrow> string \<Rightarrow> Token" where
  "token ty v = \<lparr>Type = ty, Value = v\<rparr>"

definition spaces :: "Token list \<Rightarrow> bool" where
  "spaces ws = list_all (\<lambda>w. Type w = SPACE \<or> Type w = COMMENT_IDENT) ws"

abbreviation sp :: Token where
  "sp \<equiv> token SPACE '' ''"

text \<open>The tokens of a reference action, as \<^verbatim>\<open>parseReferenceOption\<close> reads them.\<close>

fun action_tokens :: "ReferenceOption \<Rightarrow> Token list" where
  "action_tokens ReferenceOptionRestrict = [token RESTRICT ''RESTRICT'']"
| "action_tokens ReferenceOptionCascade = [token CASCADE ''CASCADE'']"
| "action_tokens ReferenceOptionSetNull = [token SET ''SET'', sp, token NULL ''NULL'']"
| "action_tokens ReferenceOptionNoAction = [token NO ''NO'', sp, token ACTION ''ACTION'']"

definition on_delete_tokens :: "ReferenceOption \<Rightarrow> Token list" where
  "on_delete_tokens a = [sp, token ON ''ON'', sp, token DELETE ''DELETE'', sp] @ action_tokens a"

definition on_update_tokens :: "ReferenceOption \<Rightarrow> Token list" where
  "on_update_tokens a = [sp, token ON ''ON'', sp, token UPDATE ''UPDATE'', sp] @ action_tokens a"

fun match_tokens :: "ReferenceMatch \<Rightarrow> Token list" where
  "match_tokens ReferenceMatchFull = [sp, token MATCH ''MATCH'', sp, token FULL ''FULL'']"
| "match_tokens ReferenceMatchPartial = [sp, token MATCH ''MATCH'', sp, token PARTIAL ''PARTIAL'']"
| "match_tokens ReferenceMatchSimple = [sp, token MATCH ''MATCH'', sp, token SIMPLE ''SIMPLE'']"

text \<open>
  \<^verbatim>\<open>CREATE TABLE t (a INT, FOREIGN KEY (a) REFERENCES other(\<close>\<open>cols\<close>\<^verbatim>\<open>)\<close>\<open>clauses\<close>\<^verbatim>\<open>);\<close>
\<close>

definition foreign_key_statement :: "Token list \<Rightarrow> Token list \<Rightarrow> Token list" where
  "foreign_key_statement cols clauses =
     [token CREATE ''CREATE'', sp, token TABLE ''TABLE'', sp, token IDENT ''t'', sp,
      token LPAREN ''('', token IDENT ''a'', sp, token INT' ''INT'', token COMMA '','', sp,
      token FOREIGN ''FOREIGN'', sp, token KEY ''KEY'', sp, token LPAREN ''('',
      token IDENT ''a'', token RPAREN '')'', sp, token REFERENCES ''REFERENCES'', sp,
      token IDENT ''other'', token LPAREN ''('']
     @ cols @ [token RPAREN '')'']
     @ clauses @ [token RPAREN '')'', token SEMICOLON '';'', token EOF []]"

text \<open>The table that the statement yields, given the reference of its foreign key.\<close>

definition foreign_key_table :: "Reference \<Rightarrow> Table" where
  "foreign_key_table r =
     \<lparr>tbl_name = ''t'', tbl_temporary = False, tbl_if_not_exists = False,
      tbl_columns = [(NewTableColumn ''a'')\<lparr>col_type := ColumnTypeInt\<rparr>],
      tbl_indexes =
        [\<lparr>idx_kind = IndexKindForeignKey, idx_symbol = None, idx_name = None,
          idx_type = IndexTypeNone, idx_columns = [''a''], idx_reference = Some r\<rparr>],
      tbl_options = []\<rparr>"

text \<open>
  \<^verbatim>\<open>CREATE TABLE t (a INT\<close> \<open>options\<close>\<^verbatim>\<open>);\<close>: a table of one \<^verbatim>\<open>INT\<close> column with the given
  column options.
\<close>

definition int_column_statement :: "Token list \<Rightarrow> Token list" where
  "int_column_statement options =
     [token CREATE ''CREATE'', sp, token TABLE ''TABLE'', sp, token IDENT ''t'', sp,
      token LPAREN ''('', token IDENT ''a'', sp, token INT' ''INT'']
     @ options @ [token RPAREN '')'', token SEMICOLON '';'', token EOF []]"

text \<open>
  The context of a parse that has not been cancelled: the tokens still to come, the
  cursor and the slots of the buffer.
\<close>

definition parsing :: "Token list \<Rightarrow> int \<Rightarrow> slots \<Rightarrow> parseCtx" where
  "parsing ts k p =
     \<lparr>Context_Done = False, select_Done = False, input = [], lexsrc = ts, peekCount = k,
      peekTokens = p\<rparr>"

text \<open>
  A sequence of calls of \<^verbatim>\<open>peek\<close> and \<^verbatim>\<open>next\<close> on one context, with the pointers they
  return.
\<close>

fun calls :: "(parseCtx \<Rightarrow> Token option res) list \<Rightarrow> parseCtx \<Rightarrow> Token option list res" where
  "calls [] c = Ok [] c"
| "calls (f # fs) c = andThen (f c) (\<lambda>t c. andThen (calls fs c) (\<lambda>ts c. Ok (t # ts) c))"

text \<open>What a run returned as an error, if it did.\<close>

fun failure :: "'a res \<Rightarrow> error option" where
  "failure (Err e c) = Some e"
| "failure _ = None"

section \<open>Evaluation of the model\<close>

lemma andThen_weak_cong: "m = m' \<Longrightarrow> andThen m f = andThen m' f"
  by simp

lemmas buffer_defs = peek_def advance_def rewind_def next'_def tok_def eofToken_def

lemmas grammar_defs =
  eol_def parseIdents_def newParseError_def newParseCtx_def Parse_def
  parseColumnIndexColName_def parseColumnIndexName_def parseColumnIndexTypeUsing_def
  parseColumnIndexType_def parseColumnIndexPrimaryKey_def parseColumnIndexUniqueKey_def
  parseColumnIndexKey_def parseColumnIndexFullTextKey_def
  parseColumnIndexForeignKey_def check_def str_at_def
  parseColumnOption_def columnTypeSwitch_def parseTableColumnSpec_def setOption_def
  setStmt_def parseConstraint_def asIndex_def parseCreateTableFields_def
  parseCreateTable_def parseCreateDatabase_def parseCreate_def

lemmas statement_defs =
  NewDatabase_def NewLength_def SetDecimal_def NewTableColumn_def NewReference_def
  NewIndex_def NewTable_def NewTableOption_def AddOption_def AddColumn_def AddIndex_def
  Index_AddColumns_def Reference_AddColumns_def SetOnDelete_def SetOnUpdate_def

lemmas colopt_defs =
  coloptSize_def coloptDecimalSize_def coloptDecimalOptionalSize_def coloptUnsigned_def
  coloptZerofill_def coloptBinary_def coloptNull_def coloptDefault_def
  coloptAutoIncrement_def coloptKey_def coloptComment_def coloptFlagNone_def
  coloptFlagDigit_def coloptFlagDecimal_def coloptFlagDecimalOptional_def
  coloptFlagTime_def coloptFlagChar_def coloptFlagBinary_def

lemmas reference_defs =
  parseReferenceOption_def parseColumnReference_def on_delete_tokens_def
  on_update_tokens_def

lemmas stream_defs =
  foreign_key_statement_def foreign_key_table_def int_column_statement_def parsing_def

lemmas outer_defs =
  buffer_defs grammar_defs statement_defs colopt_defs stream_defs skipWhiteSpaces.simps

lemmas run_defs = outer_defs reference_defs

lemma spaces_simps [simp]:
  "spaces []"
  "spaces (w # ws) \<longleftrightarrow> (Type w = SPACE \<or> Type w = COMMENT_IDENT) \<and> spaces ws"
  by (simp_all add: spaces_def)

lemma token_simps [simp]:
  "Type (token ty v) = ty"
  "Value (token ty v) = v"
  "token ty v = token ty' v' \<longleftrightarrow> ty = ty' \<and> v = v'"
  by (simp_all add: token_def)

subsection \<open>Skipping a run of blanks\<close>

lemma skipWhiteSpaces_run:
  "spaces ws \<Longrightarrow> Type t \<noteq> SPACE \<Longrightarrow> Type t \<noteq> COMMENT_IDENT \<Longrightarrow>
   skipWhiteSpaces \<lparr>Context_Done = False, select_Done = s, input = i,
      lexsrc = ws @ t # rest, peekCount = - 1, peekTokens = (p0, p1, p2)\<rparr>
   = Ok () \<lparr>Context_Done = False, select_Done = s, input = i, lexsrc = rest,
      peekCount = 0, peekTokens = (Some t, p1, p2)\<rparr>"
proof (induction ws arbitrary: p0)
  case Nil
  then show ?case
    by (subst skipWhiteSpaces.simps) (simp add: buffer_defs)
next
  case (Cons w ws)
  from Cons.prems have w: "Type w = SPACE \<or> Type w = COMMENT_IDENT" and ws: "spaces ws"
    by simp_all
  from w Cons.IH [OF ws Cons.prems(2,3)] show ?case
    by (subst skipWhiteSpaces.simps) (simp add: buffer_defs)
qed

lemma skipWhiteSpaces_head:
  "Type t \<noteq> SPACE \<Longrightarrow> Type t \<noteq> COMMENT_IDENT \<Longrightarrow>
   skipWhiteSpaces \<lparr>Context_Done = False, select_Done = s, input = i, lexsrc = t # rest,
      peekCount = - 1, peekTokens = (p0, p1, p2)\<rparr>
   = Ok () \<lparr>Context_Done = False, select_Done = s, input = i, lexsrc = rest,
      peekCount = 0, peekTokens = (Some t, p1, p2)\<rparr>"
  using skipWhiteSpaces_run [of "[]" t s i rest p0 p1 p2] by simp

lemma skipWhiteSpaces_cached:
  "Type t \<noteq> SPACE \<Longrightarrow> Type t \<noteq> COMMENT_IDENT \<Longrightarrow>
   skipWhiteSpaces \<lparr>Context_Done = d, select_Done = s, input = i, lexsrc = ts,
      peekCount = 0, peekTokens = (Some t, p1, p2)\<rparr>
   = Ok () \<lparr>Context_Done = d, select_Done = s, input = i, lexsrc = ts,
      peekCount = 0, peekTokens = (Some t, p1, p2)\<rparr>"
  by (subst skipWhiteSpaces.simps) (simp add: buffer_defs)

lemma skipWhiteSpaces_closed:
  "skipWhiteSpaces \<lparr>Context_Done = d, select_Done = s, input = i, lexsrc = [],
      peekCount = - 1, peekTokens = p\<rparr>
   = Ok () \<lparr>Context_Done = d, select_Done = s, input = i, lexsrc = [],
      peekCount = - 1, peekTokens = p\<rparr>"
  by (subst skipWhiteSpaces.simps) (simp add: buffer_defs)

lemmas skip_rules =
  skipWhiteSpaces_run skipWhiteSpaces_head skipWhiteSpaces_cached skipWhiteSpaces_closed

subsection \<open>The REFERENCES clause, from any context\<close>

text \<open>
  \<^verbatim>\<open>parseColumnReference\<close> on \<^verbatim>\<open>REFERENCES tbl (col)\<close> followed by \<^verbatim>\<open>ON\<close> clauses, when the
  caller has peeked at \<^verbatim>\<open>REFERENCES\<close>: the result and the context it leaves, for any
  index, names, actions and any tokens \<open>rest\<close> behind the clause.
\<close>

lemma reference_delete_update:
  "parseColumnReference (Suc n) index
     \<lparr>Context_Done = False, select_Done = s, input = i,
      lexsrc = sp # token IDENT tbl # token LPAREN l # token IDENT col # token RPAREN r #
        on_delete_tokens a @ on_update_tokens b @ rest,
      peekCount = 0, peekTokens = (Some (token REFERENCES v), p1, p2)\<rparr>
   = Ok (index\<lparr>idx_reference := Some
           \<lparr>ref_table_name = tbl, ref_columns = [col], ref_match = None,
            ref_on_delete = Some a, ref_on_update = Some b\<rparr>\<rparr>)
       \<lparr>Context_Done = False, select_Done = s, input = i, lexsrc = rest,
        peekCount = - 1, peekTokens = (Some (last (action_tokens b)), p1, p2)\<rparr>"
  by (cases a; cases b;
      simp add: reference_defs parseColumnIndexColName_def newParseError_def buffer_defs
        statement_defs skipWhiteSpaces.simps numeral_2_eq_2
      cong: andThen_weak_cong)

lemma reference_delete_delete:
  "parseColumnReference (Suc n) index
     \<lparr>Context_Done = False, select_Done = s, input = i,
      lexsrc = sp # token IDENT tbl # token LPAREN l # token IDENT col # token RPAREN r #
        on_delete_tokens a1 @ on_delete_tokens a2 @ rest,
      peekCount = 0, peekTokens = (Some (token REFERENCES v), p1, p2)\<rparr>
   = Ok (index\<lparr>idx_reference := Some
           \<lparr>ref_table_name = tbl, ref_columns = [col], ref_match = None,
            ref_on_delete = Some a2, ref_on_update = None\<rparr>\<rparr>)
       \<lparr>Context_Done = False, select_Done = s, input = i, lexsrc = rest,
        peekCount = - 1, peekTokens = (Some (last (action_tokens a2)), p1, p2)\<rparr>"
  by (cases a1; cases a2;
      simp add: reference_defs parseColumnIndexColName_def newParseError_def buffer_defs
        statement_defs skipWhiteSpaces.simps numeral_2_eq_2
      cong: andThen_weak_cong)

section \<open>The claims\<close>

subsection \<open>C1: statements that begin with DROP, SET or USE\<close>

lemma eol_not_at_end:
  "Type t \<noteq> SPACE \<Longrightarrow> Type t \<noteq> COMMENT_IDENT \<Longrightarrow> Type t \<noteq> EOF \<Longrightarrow>
   Type t \<noteq> SEMICOLON \<Longrightarrow>
   eol \<lparr>Context_Done = d, select_Done = s, input = i, lexsrc = ts,
      peekCount = 0, peekTokens = (Some t, p1, p2)\<rparr>
   = Ok False \<lparr>Context_Done = d, select_Done = s, input = i, lexsrc = ts,
      peekCount = 0, peekTokens = (Some t, p1, p2)\<rparr>"
  by (simp add: eol_def skipWhiteSpaces_cached buffer_defs)

lemma Parse_S1_spins:
  "Type t \<noteq> SPACE \<Longrightarrow> Type t \<noteq> COMMENT_IDENT \<Longrightarrow> Type t \<noteq> EOF \<Longrightarrow>
   Type t \<noteq> SEMICOLON \<Longrightarrow>
   Parse_S1 n \<lparr>Context_Done = d, select_Done = s, input = i, lexsrc = ts,
      peekCount = 0, peekTokens = (Some t, p1, p2)\<rparr> = OutOfFuel"
  by (induction n) (simp_all add: eol_not_at_end)

text \<open>
  Claim C1 says that a statement beginning with \<^verbatim>\<open>DROP\<close>, \<^verbatim>\<open>SET\<close> or \<^verbatim>\<open>USE\<close> is skipped
  token by token up to its terminator and that \<^verbatim>\<open>Parse\<close> returns normally. The code
  does not: \<^verbatim>\<open>eol\<close> consumes a token only when it is the terminator, and the loop \<^verbatim>\<open>S1\<close>
  consumes nothing itself, so the loop looks at the leading keyword for ever. On
  every token stream that begins with one of the three keywords \<^verbatim>\<open>Parse\<close> exhausts
  any amount of fuel: it never returns.
\<close>

theorem Parse_DROP_SET_USE_never_returns:
  "Parse (\<lambda>_. token DROP v # rest) fuel src = OutOfFuel
   \<and> Parse (\<lambda>_. token SET v # rest) fuel src = OutOfFuel
   \<and> Parse (\<lambda>_. token USE v # rest) fuel src = OutOfFuel"
  by (cases fuel)
     (simp_all add: Parse_def newParseCtx_def skipWhiteSpaces_head Parse_S1_spins buffer_defs)

subsection \<open>C2: CREATE DATABASE\<close>

text \<open>
  Claim C2: every \<^verbatim>\<open>CREATE DATABASE\<close> statement, with or without \<^verbatim>\<open>IF NOT EXISTS\<close>,
  whatever the name (bare or in backticks) and whatever blanks and comments stand
  between its words, parses: \<^verbatim>\<open>parseCreate\<close> answers with the ignorable error value,
  and \<^verbatim>\<open>Parse\<close> returns no statement and no error. Two units of fuel suffice, one for
  the statement and one for the end of the input.
\<close>

theorem CREATE_DATABASE_is_ignorable:
  assumes "spaces ws1" "spaces ws2" "spaces ws3" "spaces ws4"
    and "spaces ws5" "spaces ws6" "spaces ws7"
    and "k = IDENT \<or> k = BACKTICK_IDENT"
  shows
    "returned (Parse (\<lambda>_. token CREATE v0 # ws1 @ token DATABASE v1 # ws2 @
        token k name # ws3 @ token SEMICOLON v2 # ws4 @ [token EOF v3]) (n + 2) src)
       = Some ([], None)
     \<and> returned (Parse (\<lambda>_. token CREATE v0 # ws1 @ token DATABASE v1 # ws2 @
        token IF v4 # ws5 @ token NOT' v5 # ws6 @ token EXISTS v6 # ws7 @
        token k name # ws3 @ token SEMICOLON v2 # ws4 @ [token EOF v3]) (n + 2) src)
       = Some ([], None)
     \<and> failure (parseCreate n \<lparr>Context_Done = False, select_Done = False, input = src,
        lexsrc = ws1 @ token DATABASE v1 # ws2 @ token k name # ws3 @
          token SEMICOLON v2 # ws4 @ [token EOF v3],
        peekCount = 0, peekTokens = (Some (token CREATE v0), None, None)\<rparr>)
       = Some (Ignorable None)
     \<and> failure (parseCreate n \<lparr>Context_Done = False, select_Done = False, input = src,
        lexsrc = ws1 @ token DATABASE v1 # ws2 @ token IF v4 # ws5 @ token NOT' v5 # ws6 @
          token EXISTS v6 # ws7 @ token k name # ws3 @ token SEMICOLON v2 # ws4 @
          [token EOF v3],
        peekCount = 0, peekTokens = (Some (token CREATE v0), None, None)\<rparr>)
       = Some (Ignorable None)"
  using assms
  by (elim disjE;
      simp add: Parse_def newParseCtx_def eval_nat_numeral skip_rules buffer_defs
        parseCreate_def parseCreateDatabase_def eol_def NewDatabase_def parseIdents_def
        newParseError_def
      cong: andThen_weak_cong)

theorem CREATE_DATABASE_is_ignorable_witness:
  "returned (Parse (\<lambda>_. [token CREATE ''CREATE'', sp, token DATABASE ''DATABASE'', sp,
        token IDENT ''shop'', token SEMICOLON '';'', token EOF []]) 2 ''CREATE DATABASE shop;'')
       = Some ([], None)
   \<and> returned (Parse (\<lambda>_. [token CREATE ''CREATE'', sp, token DATABASE ''DATABASE'', sp,
        token IF ''IF'', sp, token NOT' ''NOT'', sp, token EXISTS ''EXISTS'', sp,
        token IDENT ''shop'', token SEMICOLON '';'', token EOF []]) 2
        ''CREATE DATABASE IF NOT EXISTS shop;'')
       = Some ([], None)"
  using CREATE_DATABASE_is_ignorable
    [where ?ws1.0 = "[sp]" and ?ws2.0 = "[sp]" and ?ws3.0 = "[]" and ?ws4.0 = "[]"
       and ?ws5.0 = "[sp]" and ?ws6.0 = "[sp]" and ?ws7.0 = "[sp]" and k = IDENT
       and ?v0.0 = "''CREATE''" and ?v1.0 = "''DATABASE''" and name = "''shop''"
       and ?v2.0 = "'';''" and ?v3.0 = "[]" and n = 0 and ?v4.0 = "''IF''"
       and ?v5.0 = "''NOT''" and ?v6.0 = "''EXISTS''"
       and src = "''CREATE DATABASE shop;''"]
    CREATE_DATABASE_is_ignorable
    [where ?ws1.0 = "[sp]" and ?ws2.0 = "[sp]" and ?ws3.0 = "[]" and ?ws4.0 = "[]"
       and ?ws5.0 = "[sp]" and ?ws6.0 = "[sp]" and ?ws7.0 = "[sp]" and k = IDENT
       and ?v0.0 = "''CREATE''" and ?v1.0 = "''DATABASE''" and name = "''shop''"
       and ?v2.0 = "'';''" and ?v3.0 = "[]" and n = 0 and ?v4.0 = "''IF''"
       and ?v5.0 = "''NOT''" and ?v6.0 = "''EXISTS''"
       and src = "''CREATE DATABASE IF NOT EXISTS shop;''"]
  by (simp add: numeral_2_eq_2)

subsection \<open>C3: the order of column options\<close>

text \<open>
  Claim C3: \<^verbatim>\<open>check\<close> accepts a rank \<open>r\<close> exactly when \<open>r\<close> is among the permitted ranks
  \<open>f\<close> and is not below the current rank \<open>pos\<close>, which then becomes \<open>r\<close> (an equal
  rank passes). \<open>f\<close> is the capability set of the column type joined with the ranks
  of the null state, \<^verbatim>\<open>DEFAULT\<close>, \<^verbatim>\<open>AUTO_INCREMENT\<close>, the key family and \<^verbatim>\<open>COMMENT\<close>. For
  each option keyword, a rank that fails either condition makes the option loop
  return the fatal error \<^verbatim>\<open>cant apply ...\<close> for that keyword, at the token of the
  keyword; for the keywords that only set a flag, a rank that passes sets the flag and
  the loop goes on at that rank. \<^verbatim>\<open>CREATE TABLE t (a INT DEFAULT 1 NOT NULL);\<close> fails with
  \<^verbatim>\<open>cant apply NOT NULL\<close>, and \<^verbatim>\<open>Parse\<close> returns that error and no statement.
\<close>

theorem column_option_rank_enforcement:
  "check f pos r = (if pos \<le> r \<and> f OR r = f then (True, r) else (False, pos))
   \<and> parseColumnOption n col f0 c =
       parseColumnOption_loop n
         (f0 OR coloptNull OR coloptDefault OR coloptAutoIncrement OR coloptKey OR coloptComment)
         0 col c
   \<and> (\<forall>(K, r, msg) \<in> set
          [(UNSIGNED, coloptUnsigned, ''cant apply UNSIGNED''),
           (ZEROFILL, coloptZerofill, ''cant apply ZEROFILL''),
           (BINARY, coloptBinary, ''cant apply BINARY''),
           (NOT', coloptNull, ''cant apply NOT NULL''),
           (NULL, coloptNull, ''cant apply NULL''),
           (DEFAULT, coloptDefault, ''cant apply DEFAULT''),
           (AUTO_INCREMENT, coloptAutoIncrement, ''cant apply AUTO_INCREMENT''),
           (UNIQUE, coloptKey, ''cant apply UNIQUE KEY''),
           (KEY, coloptKey, ''cant apply KEY''),
           (PRIMARY, coloptKey, ''cant apply PRIMARY KEY''),
           (COMMENT, coloptComment, ''cant apply COMMENT'')].
        skipWhiteSpaces c = Ok () c1 \<longrightarrow> tok (next' c1) = Ok t c2 \<longrightarrow> Type t = K \<longrightarrow>
        \<not> (pos \<le> r \<and> f OR r = f) \<longrightarrow>
        parseColumnOption_loop (Suc n) f pos col c = Err (ParseError t msg) c2)
   \<and> (\<forall>(K, r, set_flag) \<in> set
          [(UNSIGNED, coloptUnsigned, col_unsigned_update (\<lambda>_. True)),
           (ZEROFILL, coloptZerofill, col_zerofill_update (\<lambda>_. True)),
           (BINARY, coloptBinary, col_binary_update (\<lambda>_. True)),
           (NULL, coloptNull, col_null_state_update (\<lambda>_. NullStateNull)),
           (AUTO_INCREMENT, coloptAutoIncrement, col_auto_increment_update (\<lambda>_. True)),
           (KEY, coloptKey, col_is_key_update (\<lambda>_. True))].
        skipWhiteSpaces c = Ok () c1 \<longrightarrow> tok (next' c1) = Ok t c2 \<longrightarrow> Type t = K \<longrightarrow>
        pos \<le> r \<and> f OR r = f \<longrightarrow>
        parseColumnOption_loop (Suc n) f pos col c =
          parseColumnOption_loop n f r (set_flag col) c2)
   \<and> returned (Parse (\<lambda>_. int_column_statement
        [sp, token DEFAULT ''DEFAULT'', sp, token NUMBER ''1'', sp, token NOT' ''NOT'', sp,
         token NULL ''NULL'']) (m + 4) src)
       = Some ([], Some (ParseError (token NOT' ''NOT'') ''cant apply NOT NULL''))"
proof (intro conjI)
  show "check f pos r = (if pos \<le> r \<and> f OR r = f then (True, r) else (False, pos))"
    by (simp add: check_def)
  show "parseColumnOption n col f0 c =
       parseColumnOption_loop n
         (f0 OR coloptNull OR coloptDefault OR coloptAutoIncrement OR coloptKey OR coloptComment)
         0 col c"
    by (simp add: parseColumnOption_def)
  show "returned (Parse (\<lambda>_. int_column_statement
        [sp, token DEFAULT ''DEFAULT'', sp, token NUMBER ''1'', sp, token NOT' ''NOT'', sp,
         token NULL ''NULL'']) (m + 4) src)
       = Some ([], Some (ParseError (token NOT' ''NOT'') ''cant apply NOT NULL''))"
    by (simp add: run_defs eval_nat_numeral cong: andThen_weak_cong)
qed (simp_all add: check_def newParseError_def)

text \<open>
  The witness: \<^verbatim>\<open>UNSIGNED\<close> is refused on a character column, whose capability set
  lacks its rank, and accepted on an integer column. With the ranks joined in by
  \<^verbatim>\<open>parseColumnOption\<close> the permitted set of a character column is 2017 and that of an
  integer column 2009.
\<close>

theorem column_option_rank_enforcement_witness:
  "skipWhiteSpaces (parsing [sp, token UNSIGNED ''UNSIGNED'', token RPAREN '')''] (- 1)
       (None, None, None))
     = Ok () (parsing [token RPAREN '')''] 0 (Some (token UNSIGNED ''UNSIGNED''), None, None))
   \<and> tok (next' (parsing [token RPAREN '')''] 0 (Some (token UNSIGNED ''UNSIGNED''), None, None)))
     = Ok (token UNSIGNED ''UNSIGNED'')
         (parsing [token RPAREN '')''] (- 1) (Some (token UNSIGNED ''UNSIGNED''), None, None))
   \<and> \<not> (0 \<le> coloptUnsigned \<and> 2017 OR coloptUnsigned = 2017)
   \<and> parseColumnOption_loop (Suc 0) 2017 0 (NewTableColumn ''a'')
       (parsing [sp, token UNSIGNED ''UNSIGNED'', token RPAREN '')''] (- 1) (None, None, None))
     = Err (ParseError (token UNSIGNED ''UNSIGNED'') ''cant apply UNSIGNED'')
         (parsing [token RPAREN '')''] (- 1) (Some (token UNSIGNED ''UNSIGNED''), None, None))
   \<and> (0 \<le> coloptUnsigned \<and> 2009 OR coloptUnsigned = 2009)
   \<and> returned (parseColumnOption_loop (Suc (Suc 0)) 2009 0 (NewTableColumn ''a'')
       (parsing [sp, token UNSIGNED ''UNSIGNED'', token RPAREN '')''] (- 1) (None, None, None)))
     = Some ((NewTableColumn ''a'')\<lparr>col_unsigned := True\<rparr>)"
proof -
  let ?c = "parsing [sp, token UNSIGNED ''UNSIGNED'', token RPAREN '')''] (- 1) (None, None, None)"
  let ?c1 = "parsing [token RPAREN '')''] 0 (Some (token UNSIGNED ''UNSIGNED''), None, None)"
  let ?c2 = "parsing [token RPAREN '')''] (- 1) (Some (token UNSIGNED ''UNSIGNED''), None, None)"
  let ?t = "token UNSIGNED ''UNSIGNED''"
  have s: "skipWhiteSpaces ?c = Ok () ?c1"
    by (simp add: parsing_def buffer_defs skipWhiteSpaces.simps)
  have t: "tok (next' ?c1) = Ok ?t ?c2"
    by (simp add: parsing_def buffer_defs)
  have no: "\<not> (0 \<le> coloptUnsigned \<and> 2017 OR coloptUnsigned = 2017)"
    by (simp add: coloptUnsigned_def)
  have yes: "0 \<le> coloptUnsigned \<and> 2009 OR coloptUnsigned = 2009"
    by (simp add: coloptUnsigned_def)
  from s t no
    column_option_rank_enforcement
      [where c = ?c and ?c1.0 = ?c1 and ?c2.0 = ?c2 and t = ?t and f = 2017 and pos = 0
         and n = 0 and col = "NewTableColumn ''a''"]
  have refused: "parseColumnOption_loop (Suc 0) 2017 0 (NewTableColumn ''a'') ?c
      = Err (ParseError ?t ''cant apply UNSIGNED'') ?c2"
    by (simp del: parseColumnOption_loop.simps)
  from s t yes
    column_option_rank_enforcement
      [where c = ?c and ?c1.0 = ?c1 and ?c2.0 = ?c2 and t = ?t and f = 2009 and pos = 0
         and n = "Suc 0" and col = "NewTableColumn ''a''"]
  have accepted: "parseColumnOption_loop (Suc (Suc 0)) 2009 0 (NewTableColumn ''a'') ?c
      = parseColumnOption_loop (Suc 0) 2009 coloptUnsigned
          ((NewTableColumn ''a'')\<lparr>col_unsigned := True\<rparr>) ?c2"
    by (simp del: parseColumnOption_loop.simps)
  have "returned (parseColumnOption_loop (Suc 0) 2009 coloptUnsigned
          ((NewTableColumn ''a'')\<lparr>col_unsigned := True\<rparr>) ?c2)
      = Some ((NewTableColumn ''a'')\<lparr>col_unsigned := True\<rparr>)"
    by (simp add: parsing_def buffer_defs skipWhiteSpaces.simps cong: andThen_weak_cong)
  with s t no yes refused accepted show ?thesis
    by (simp del: parseColumnOption_loop.simps)
qed

subsection \<open>C4: the REFERENCES clause of a foreign key\<close>

text \<open>
  Claim C4, on the statement
  \<^verbatim>\<open>CREATE TABLE t (a INT, FOREIGN KEY (a) REFERENCES other(id) ...);\<close> with every
  choice of the actions \<open>a\<close> and \<open>b\<close> and of the match kind \<open>m\<close>: the table name and the
  column list are read; \<^verbatim>\<open>ON DELETE a ON UPDATE b\<close> sets both actions (with \<open>a\<close> Cascade
  and \<open>b\<close> Restrict this is the statement of the claim); \<^verbatim>\<open>ON DELETE a\<close>, \<^verbatim>\<open>ON UPDATE b\<close>
  and \<^verbatim>\<open>MATCH m\<close> alone set their field, and no clause leaves all three unset; after
  \<^verbatim>\<open>ON UPDATE b\<close> the clause is over, so that a further \<^verbatim>\<open>ON\<close> is a fatal error of the
  enclosing list; an empty column list is a fatal error; and a token that begins
  none of the four actions is a fatal error of \<^verbatim>\<open>parseReferenceOption\<close>.
\<close>

theorem foreign_key_reference_clause:
  "returned (Parse (\<lambda>_. foreign_key_statement [token IDENT ''id'']
        (on_delete_tokens a @ on_update_tokens b)) (n + 8) src)
     = Some ([StmtTable (foreign_key_table
         \<lparr>ref_table_name = ''other'', ref_columns = [''id''], ref_match = None,
          ref_on_delete = Some a, ref_on_update = Some b\<rparr>)], None)
   \<and> returned (Parse (\<lambda>_. foreign_key_statement [token IDENT ''id'']
        (on_delete_tokens a)) (n + 8) src)
     = Some ([StmtTable (foreign_key_table
         \<lparr>ref_table_name = ''other'', ref_columns = [''id''], ref_match = None,
          ref_on_delete = Some a, ref_on_update = None\<rparr>)], None)
   \<and> returned (Parse (\<lambda>_. foreign_key_statement [token IDENT ''id'']
        (on_update_tokens b)) (n + 8) src)
     = Some ([StmtTable (foreign_key_table
         \<lparr>ref_table_name = ''other'', ref_columns = [''id''], ref_match = None,
          ref_on_delete = None, ref_on_update = Some b\<rparr>)], None)
   \<and> returned (Parse (\<lambda>_. foreign_key_statement [token IDENT ''id'']
        (match_tokens m)) (n + 8) src)
     = Some ([StmtTable (foreign_key_table
         \<lparr>ref_table_name = ''other'', ref_columns = [''id''], ref_match = Some m,
          ref_on_delete = None, ref_on_update = None\<rparr>)], None)
   \<and> returned (Parse (\<lambda>_. foreign_key_statement [token IDENT ''id''] []) (n + 8) src)
     = Some ([StmtTable (foreign_key_table
         \<lparr>ref_table_name = ''other'', ref_columns = [''id''], ref_match = None,
          ref_on_delete = None, ref_on_update = None\<rparr>)], None)
   \<and> returned (Parse (\<lambda>_. foreign_key_statement [token IDENT ''id'']
        (on_update_tokens b @ sp # token ON ''ON'' # rest)) (n + 8) src)
     = Some ([], Some (ParseError (token ON ''ON'') ''unexpected create table fields''))
   \<and> returned (Parse (\<lambda>_. foreign_key_statement [] clauses) (n + 8) src)
     = Some ([], Some (ParseError (token RPAREN '')'') ''should IDENT or BACKTICK_IDENT''))
   \<and> (skipWhiteSpaces c = Ok () c1 \<longrightarrow> tok (next' c1) = Ok t c2 \<longrightarrow>
        Type t \<notin> {RESTRICT, CASCADE, SET, NO} \<longrightarrow>
        parseReferenceOption set' r c
          = Err (ParseError t ''expected RESTRICT, CASCADE, SET or NO'') c2)"
proof (intro conjI)
  show "returned (Parse (\<lambda>_. foreign_key_statement [token IDENT ''id'']
        (on_delete_tokens a @ on_update_tokens b)) (n + 8) src)
     = Some ([StmtTable (foreign_key_table
         \<lparr>ref_table_name = ''other'', ref_columns = [''id''], ref_match = None,
          ref_on_delete = Some a, ref_on_update = Some b\<rparr>)], None)"
    by (simp add: outer_defs reference_delete_update eval_nat_numeral
          cong: andThen_weak_cong)
  show "returned (Parse (\<lambda>_. foreign_key_statement [token IDENT ''id'']
        (on_delete_tokens a)) (n + 8) src)
     = Some ([StmtTable (foreign_key_table
         \<lparr>ref_table_name = ''other'', ref_columns = [''id''], ref_match = None,
          ref_on_delete = Some a, ref_on_update = None\<rparr>)], None)"
    by (cases a; simp add: run_defs eval_nat_numeral cong: andThen_weak_cong)
  show "returned (Parse (\<lambda>_. foreign_key_statement [token IDENT ''id'']
        (on_update_tokens b)) (n + 8) src)
     = Some ([StmtTable (foreign_key_table
         \<lparr>ref_table_name = ''other'', ref_columns = [''id''], ref_match = None,
          ref_on_delete = None, ref_on_update = Some b\<rparr>)], None)"
    by (cases b; simp add: run_defs eval_nat_numeral cong: andThen_weak_cong)
  show "returned (Parse (\<lambda>_. foreign_key_statement [token IDENT ''id'']
        (match_tokens m)) (n + 8) src)
     = Some ([StmtTable (foreign_key_table
         \<lparr>ref_table_name = ''other'', ref_columns = [''id''], ref_match = Some m,
          ref_on_delete = None, ref_on_update = None\<rparr>)], None)"
    by (cases m; simp add: run_defs eval_nat_numeral cong: andThen_weak_cong)
  show "returned (Parse (\<lambda>_. foreign_key_statement [token IDENT ''id''] []) (n + 8) src)
     = Some ([StmtTable (foreign_key_table
         \<lparr>ref_table_name = ''other'', ref_columns = [''id''], ref_match = None,
          ref_on_delete = None, ref_on_update = None\<rparr>)], None)"
    by (simp add: run_defs eval_nat_numeral cong: andThen_weak_cong)
  show "returned (Parse (\<lambda>_. foreign_key_statement [token IDENT ''id'']
        (on_update_tokens b @ sp # token ON ''ON'' # rest)) (n + 8) src)
     = Some ([], Some (ParseError (token ON ''ON'') ''unexpected create table fields''))"
    by (cases b; simp add: run_defs eval_nat_numeral cong: andThen_weak_cong)
  show "returned (Parse (\<lambda>_. foreign_key_statement [] clauses) (n + 8) src)
     = Some ([], Some (ParseError (token RPAREN '')'') ''should IDENT or BACKTICK_IDENT''))"
    by (simp add: run_defs eval_nat_numeral cong: andThen_weak_cong)
  show "skipWhiteSpaces c = Ok () c1 \<longrightarrow> tok (next' c1) = Ok t c2 \<longrightarrow>
        Type t \<notin> {RESTRICT, CASCADE, SET, NO} \<longrightarrow>
        parseReferenceOption set' r c
          = Err (ParseError t ''expected RESTRICT, CASCADE, SET or NO'') c2"
    by (simp add: parseReferenceOption_def newParseError_def)
qed

text \<open>
  The witness: the statement of the claim, \<^verbatim>\<open>ON DELETE CASCADE ON UPDATE RESTRICT\<close>, and an
  identifier where an action is expected.
\<close>

theorem foreign_key_reference_clause_witness:
  "skipWhiteSpaces (parsing [sp, token IDENT ''x''] (- 1) (None, None, None))
     = Ok () (parsing [] 0 (Some (token IDENT ''x''), None, None))
   \<and> tok (next' (parsing [] 0 (Some (token IDENT ''x''), None, None)))
     = Ok (token IDENT ''x'') (parsing [] (- 1) (Some (token IDENT ''x''), None, None))
   \<and> Type (token IDENT ''x'') \<notin> {RESTRICT, CASCADE, SET, NO}
   \<and> parseReferenceOption SetOnDelete NewReference
       (parsing [sp, token IDENT ''x''] (- 1) (None, None, None))
     = Err (ParseError (token IDENT ''x'') ''expected RESTRICT, CASCADE, SET or NO'')
         (parsing [] (- 1) (Some (token IDENT ''x''), None, None))
   \<and> returned (Parse (\<lambda>_. foreign_key_statement [token IDENT ''id'']
        (on_delete_tokens ReferenceOptionCascade @ on_update_tokens ReferenceOptionRestrict)) 8
        ''CREATE TABLE t (a INT, FOREIGN KEY (a) REFERENCES other(id) ON DELETE CASCADE ON UPDATE RESTRICT);'')
     = Some ([StmtTable (foreign_key_table
         \<lparr>ref_table_name = ''other'', ref_columns = [''id''], ref_match = None,
          ref_on_delete = Some ReferenceOptionCascade,
          ref_on_update = Some ReferenceOptionRestrict\<rparr>)], None)"
proof -
  let ?c = "parsing [sp, token IDENT ''x''] (- 1) (None, None, None)"
  let ?c1 = "parsing [] 0 (Some (token IDENT ''x''), None, None)"
  let ?c2 = "parsing [] (- 1) (Some (token IDENT ''x''), None, None)"
  have s: "skipWhiteSpaces ?c = Ok () ?c1"
    by (simp add: parsing_def buffer_defs skipWhiteSpaces.simps)
  have t: "tok (next' ?c1) = Ok (token IDENT ''x'') ?c2"
    by (simp add: parsing_def buffer_defs)
  from s t
    foreign_key_reference_clause
      [where c = ?c and ?c1.0 = ?c1 and ?c2.0 = ?c2 and t = "token IDENT ''x''"
         and set' = SetOnDelete and r = NewReference
         and a = ReferenceOptionCascade and b = ReferenceOptionRestrict and n = 0]
  show ?thesis
    by simp
qed

subsection \<open>C5: UNIQUE KEY and PRIMARY KEY as column options\<close>

text \<open>
  Claim C5 says that the \<^verbatim>\<open>KEY\<close> after \<^verbatim>\<open>UNIQUE\<close> and after \<^verbatim>\<open>PRIMARY\<close> is optional and that
  the flag is set either way. In the code the flag is set inside the test for a
  following \<^verbatim>\<open>KEY\<close>: \<^verbatim>\<open>CREATE TABLE t (a INT PRIMARY);\<close> parses, and its column is not
  primary.
\<close>

theorem bare_PRIMARY_sets_no_flag:
  "returned (Parse (\<lambda>_. int_column_statement [sp, token PRIMARY ''PRIMARY'']) 4
       ''CREATE TABLE t (a INT PRIMARY);'')
     = Some ([StmtTable
         \<lparr>tbl_name = ''t'', tbl_temporary = False, tbl_if_not_exists = False,
          tbl_columns =
            [\<lparr>col_name = ''a'', col_type = ColumnTypeInt, col_length = None,
              col_unsigned = False, col_zerofill = False, col_binary = False,
              col_null_state = NullStateUnknown, col_default = None,
              col_auto_increment = False, col_is_key = False, col_is_unique = False,
              col_is_primary = False, col_comment = None\<rparr>],
          tbl_indexes = [], tbl_options = []\<rparr>], None)"
  by (simp add: run_defs eval_nat_numeral cong: andThen_weak_cong)

text \<open>
  Claim C5 as amended. In the option loop, at a rank that admits the key family and
  with any blanks and comments around the words: \<^verbatim>\<open>UNIQUE KEY\<close> sets \<open>is_unique\<close> and
  \<^verbatim>\<open>PRIMARY KEY\<close> sets \<open>is_primary\<close>, and the loop goes on at the rank of the key
  family with all tokens behind \<^verbatim>\<open>KEY\<close> still to come; a \<^verbatim>\<open>PRIMARY\<close> that is followed by
  another token than \<^verbatim>\<open>KEY\<close> is accepted, sets no flag, and leaves that token current.
  (What a \<^verbatim>\<open>UNIQUE\<close> without \<^verbatim>\<open>KEY\<close> does is not part of the amended claim.)
\<close>

theorem UNIQUE_KEY_and_PRIMARY_KEY_set_flags:
  assumes "spaces ws0" "spaces ws1"
    and "pos \<le> coloptKey" "f OR coloptKey = f"
  shows
    "parseColumnOption_loop (Suc n) f pos col
       \<lparr>Context_Done = False, select_Done = s, input = i,
        lexsrc = ws0 @ token UNIQUE u # ws1 @ token KEY k # rest,
        peekCount = - 1, peekTokens = (p0, p1, p2)\<rparr>
     = parseColumnOption_loop n f coloptKey (col\<lparr>col_is_unique := True\<rparr>)
         \<lparr>Context_Done = False, select_Done = s, input = i, lexsrc = rest,
          peekCount = - 1, peekTokens = (Some (token KEY k), p1, p2)\<rparr>
     \<and> parseColumnOption_loop (Suc n) f pos col
       \<lparr>Context_Done = False, select_Done = s, input = i,
        lexsrc = ws0 @ token PRIMARY u # ws1 @ token KEY k # rest,
        peekCount = - 1, peekTokens = (p0, p1, p2)\<rparr>
     = parseColumnOption_loop n f coloptKey (col\<lparr>col_is_primary := True\<rparr>)
         \<lparr>Context_Done = False, select_Done = s, input = i, lexsrc = rest,
          peekCount = - 1, peekTokens = (Some (token KEY k), p1, p2)\<rparr>
     \<and> (Type t \<notin> {SPACE, COMMENT_IDENT, KEY} \<longrightarrow>
        parseColumnOption_loop (Suc n) f pos col
          \<lparr>Context_Done = False, select_Done = s, input = i,
           lexsrc = ws0 @ token PRIMARY u # ws1 @ t # rest,
           peekCount = - 1, peekTokens = (p0, p1, p2)\<rparr>
        = parseColumnOption_loop n f coloptKey col
            \<lparr>Context_Done = False, select_Done = s, input = i, lexsrc = rest,
             peekCount = 0, peekTokens = (Some t, p1, p2)\<rparr>)"
  using assms
  by (simp add: skip_rules buffer_defs check_def cong: andThen_weak_cong)

text \<open>
  The witness: \<^verbatim>\<open>UNIQUE KEY\<close>, \<^verbatim>\<open>PRIMARY KEY\<close> and \<^verbatim>\<open>PRIMARY\<close> before the closing
  parenthesis, as the first option of an integer column.
\<close>

theorem UNIQUE_KEY_and_PRIMARY_KEY_set_flags_witness:
  "spaces [sp] \<and> (0::int) \<le> coloptKey \<and> (2009::int) OR coloptKey = 2009
   \<and> Type (token RPAREN '')'') \<notin> {SPACE, COMMENT_IDENT, KEY}
   \<and> returned (parseColumnOption_loop (Suc (Suc 0)) 2009 0 (NewTableColumn ''a'')
       (parsing [sp, token UNIQUE ''UNIQUE'', sp, token KEY ''KEY'', token RPAREN '')'']
          (- 1) (None, None, None)))
     = Some ((NewTableColumn ''a'')\<lparr>col_is_unique := True\<rparr>)
   \<and> returned (parseColumnOption_loop (Suc (Suc 0)) 2009 0 (NewTableColumn ''a'')
       (parsing [sp, token PRIMARY ''PRIMARY'', sp, token KEY ''KEY'', token RPAREN '')'']
          (- 1) (None, None, None)))
     = Some ((NewTableColumn ''a'')\<lparr>col_is_primary := True\<rparr>)
   \<and> returned (parseColumnOption_loop (Suc (Suc 0)) 2009 0 (NewTableColumn ''a'')
       (parsing [sp, token PRIMARY ''PRIMARY'', sp, token RPAREN '')'']
          (- 1) (None, None, None)))
     = Some (NewTableColumn ''a'')"
proof -
  have ws: "spaces [sp]" and rank: "(0::int) \<le> coloptKey"
    and allowed: "(2009::int) OR coloptKey = 2009"
    and other: "Type (token RPAREN '')'') \<notin> {SPACE, COMMENT_IDENT, KEY}"
    by (simp_all add: coloptKey_def)
  note step = UNIQUE_KEY_and_PRIMARY_KEY_set_flags
    [OF ws ws rank allowed, where n = "Suc 0" and col = "NewTableColumn ''a''"
       and s = False and i = "[]" and ?p0.0 = None and ?p1.0 = None and ?p2.0 = None
       and u = u and k = "''KEY''" and rest = "[token RPAREN '')'']"
       and t = "token RPAREN '')''" for u]
  note bare = UNIQUE_KEY_and_PRIMARY_KEY_set_flags
    [OF ws ws rank allowed, where n = "Suc 0" and col = "NewTableColumn ''a''"
       and s = False and i = "[]" and ?p0.0 = None and ?p1.0 = None and ?p2.0 = None
       and u = "''PRIMARY''" and rest = "[]" and t = "token RPAREN '')''"]
  have rest: "returned (parseColumnOption_loop (Suc 0) 2009 coloptKey col'
       \<lparr>Context_Done = False, select_Done = False, input = [],
        lexsrc = [token RPAREN '')''], peekCount = - 1, peekTokens = (q, None, None)\<rparr>)
     = Some col'"
    and rest': "returned (parseColumnOption_loop (Suc 0) 2009 coloptKey col'
       \<lparr>Context_Done = False, select_Done = False, input = [],
        lexsrc = [], peekCount = 0,
        peekTokens = (Some (token RPAREN '')''), None, None)\<rparr>)
     = Some col'" for col' q
    by (simp_all add: buffer_defs skipWhiteSpaces.simps cong: andThen_weak_cong)
  from step [of "''UNIQUE''"] step [of "''PRIMARY''"] bare other rest rest' ws rank allowed
  show ?thesis
    by (simp add: parsing_def del: parseColumnOption_loop.simps)
qed

text \<open>
  For the record, the case the amended claim leaves out: a \<^verbatim>\<open>UNIQUE\<close> without \<^verbatim>\<open>KEY\<close>
  reads the token behind it with \<^verbatim>\<open>next\<close>, where the \<^verbatim>\<open>PRIMARY\<close> case uses \<^verbatim>\<open>peek\<close>, so
  that token is consumed and lost: \<^verbatim>\<open>CREATE TABLE t (a INT UNIQUE);\<close> loses its closing
  parenthesis and fails at the semicolon.
\<close>

lemma bare_UNIQUE_consumes_next_token:
  "returned (Parse (\<lambda>_. int_column_statement [sp, token UNIQUE ''UNIQUE'']) (n + 4) src)
     = Some ([], Some (ParseError (token SEMICOLON '';'') ''unexpected column options''))"
  by (simp add: run_defs eval_nat_numeral cong: andThen_weak_cong)

subsection \<open>C6: the laws of the lookahead buffer\<close>

text \<open>The three ways of \<^verbatim>\<open>peek\<close>, and what follows from them.\<close>

lemma peek_cached:
  "0 \<le> peekCount c \<Longrightarrow>
   peek c = (case slot_get (peekTokens c) (peekCount c) of
               None \<Rightarrow> Panic ''index out of range'' | Some p \<Rightarrow> Ok p c)"
  by (simp add: peek_def)

lemma peek_closed:
  "peekCount c < 0 \<Longrightarrow> lexsrc c = [] \<or> (Context_Done c \<and> select_Done c) \<Longrightarrow>
   peek c = Ok (Some eofToken) c"
  by (auto simp: peek_def)

lemma peek_fetch:
  "peekCount c < 0 \<Longrightarrow> \<not> (Context_Done c \<and> select_Done c) \<Longrightarrow> lexsrc c = x # xs \<Longrightarrow>
   peek c = (if peekCount c = - 1
             then Ok (Some x) (c\<lparr>lexsrc := xs, peekCount := 0,
                    peekTokens := (Some x, snd (peekTokens c))\<rparr>)
             else Panic ''index out of range'')"
  by (cases "peekTokens c") (auto simp: peek_def Let_def)

lemma slot_get_Some:
  "slot_get p k = Some v \<Longrightarrow> 0 \<le> k \<and> k \<le> 2"
  by (cases p) (auto split: if_splits)

lemma peek_twice: "\<not> Context_Done c \<Longrightarrow> peek c = Ok t c' \<Longrightarrow> peek c' = Ok t c'"
proof -
  assume live: "\<not> Context_Done c" and p: "peek c = Ok t c'"
  show ?thesis
  proof (cases "0 \<le> peekCount c")
    case True
    with p show ?thesis
      by (auto simp: peek_cached split: option.splits)
  next
    case False
    then have neg: "peekCount c < 0" by simp
    show ?thesis
    proof (cases "lexsrc c")
      case Nil
      with neg p show ?thesis
        by (auto simp: peek_closed)
    next
      case (Cons x xs)
      with neg live p show ?thesis
        by (cases "peekTokens c") (auto simp: peek_fetch peek_cached split: if_splits)
    qed
  qed
qed

lemma peek_keeps_upper_slots: "peek c = Ok t c' \<Longrightarrow> snd (peekTokens c') = snd (peekTokens c)"
proof (cases "0 \<le> peekCount c")
  case True
  assume "peek c = Ok t c'"
  with True show ?thesis
    by (auto simp: peek_cached split: option.splits)
next
  case False
  assume p: "peek c = Ok t c'"
  from False have neg: "peekCount c < 0" by simp
  show ?thesis
  proof (cases "lexsrc c = [] \<or> (Context_Done c \<and> select_Done c)")
    case True
    with neg p show ?thesis by (simp add: peek_closed)
  next
    case False
    then obtain x xs where "lexsrc c = x # xs" and "\<not> (Context_Done c \<and> select_Done c)"
      by (cases "lexsrc c") auto
    with neg p show ?thesis
      by (auto simp: peek_fetch split: if_splits)
  qed
qed

lemma rewind_after_next:
  "\<not> Context_Done c \<Longrightarrow> 0 \<le> peekCount c \<or> lexsrc c \<noteq> [] \<Longrightarrow> next' c = Ok t c1 \<Longrightarrow>
   peek (rewind c1) = Ok t (rewind c1) \<and> lexsrc (rewind c1) = lexsrc c1"
proof -
  assume live: "\<not> Context_Done c" and some: "0 \<le> peekCount c \<or> lexsrc c \<noteq> []"
    and n: "next' c = Ok t c1"
  show ?thesis
  proof (cases "0 \<le> peekCount c")
    case True
    from n True obtain k where "slot_get (peekTokens c) (peekCount c) = Some t"
      and c1: "c1 = advance c"
      by (auto simp: next'_def peek_cached split: option.splits)
    with True slot_get_Some [of "peekTokens c" "peekCount c" t] show ?thesis
      by (simp add: advance_def rewind_def peek_cached)
  next
    case False
    with some obtain x xs where xs: "lexsrc c = x # xs" and neg: "peekCount c < 0"
      by (cases "lexsrc c") auto
    with live n show ?thesis
      by (cases "peekTokens c")
         (auto simp: next'_def peek_fetch advance_def rewind_def peek_cached split: if_splits)
  qed
qed


text \<open>
  Claim C6 ends with: successive rewinds after several advances re-expose the
  tokens fetched before, out of a history of three slots. They do not. \<^verbatim>\<open>peek\<close> fetches
  only when the cursor is below zero and then stores at index zero, so the slots 1
  and 2 are never written. After the tokens \<open>a\<close> and \<open>b\<close> have been taken from a fresh
  context, the first rewind makes \<open>b\<close> current again; the second moves the cursor to
  slot 1 and \<^verbatim>\<open>peek\<close> returns its \<^verbatim>\<open>nil\<close> pointer, not \<open>a\<close>.
\<close>

theorem second_rewind_exposes_empty_slot:
  "next' (parsing [token IDENT ''a'', token IDENT ''b''] (- 1) (None, None, None))
     = Ok (Some (token IDENT ''a''))
         (parsing [token IDENT ''b''] (- 1) (Some (token IDENT ''a''), None, None))
   \<and> next' (parsing [token IDENT ''b''] (- 1) (Some (token IDENT ''a''), None, None))
     = Ok (Some (token IDENT ''b'')) (parsing [] (- 1) (Some (token IDENT ''b''), None, None))
   \<and> peek (rewind (parsing [] (- 1) (Some (token IDENT ''b''), None, None)))
     = Ok (Some (token IDENT ''b'')) (parsing [] 0 (Some (token IDENT ''b''), None, None))
   \<and> peek (rewind (rewind (parsing [] (- 1) (Some (token IDENT ''b''), None, None))))
     = Ok None (parsing [] 1 (Some (token IDENT ''b''), None, None))"
  by (simp add: parsing_def buffer_defs)

text \<open>
  Claim C6 as amended. While the context is not cancelled: a \<^verbatim>\<open>peek\<close> that returns
  leaves a context in which \<^verbatim>\<open>peek\<close> returns the same token and changes nothing;
  \<^verbatim>\<open>next\<close> is \<^verbatim>\<open>peek\<close> followed by \<^verbatim>\<open>advance\<close> and returns the token of the \<^verbatim>\<open>peek\<close>; when
  \<^verbatim>\<open>next\<close> has consumed a token (a cached one, or one the source still had), a
  \<^verbatim>\<open>rewind\<close> right after it makes that token current again without touching the
  source. The history is one token deep: \<^verbatim>\<open>peek\<close> never writes the slots 1 and 2, and
  after two tokens have been taken, the second of two rewinds exposes what slot 1
  held all along, not the first token.
\<close>

theorem lookahead_buffer_laws:
  "(\<not> Context_Done c \<longrightarrow> peek c = Ok t c' \<longrightarrow> peek c' = Ok t c')
   \<and> next' c = andThen (peek c) (\<lambda>t c. Ok t (advance c))
   \<and> (\<not> Context_Done c \<longrightarrow> (0 \<le> peekCount c \<or> lexsrc c \<noteq> []) \<longrightarrow> next' c = Ok t c1 \<longrightarrow>
        peek (rewind c1) = Ok t (rewind c1) \<and> lexsrc (rewind c1) = lexsrc c1)
   \<and> (peek c = Ok t c' \<longrightarrow> snd (peekTokens c') = snd (peekTokens c))
   \<and> (\<forall>c2. calls [next', next'] \<lparr>Context_Done = False, select_Done = s, input = i,
            lexsrc = a # b # ts, peekCount = - 1, peekTokens = (p0, p1, p2)\<rparr>
          = Ok [Some a, Some b] c2 \<longrightarrow>
        peek (rewind c2) = Ok (Some b) (rewind c2)
        \<and> peek (rewind (rewind c2)) = Ok p1 (rewind (rewind c2))
        \<and> lexsrc (rewind (rewind c2)) = ts)"
proof (intro conjI)
  show "\<not> Context_Done c \<longrightarrow> peek c = Ok t c' \<longrightarrow> peek c' = Ok t c'"
    using peek_twice by blast
  show "next' c = andThen (peek c) (\<lambda>t c. Ok t (advance c))"
    by (simp add: next'_def)
  show "\<not> Context_Done c \<longrightarrow> (0 \<le> peekCount c \<or> lexsrc c \<noteq> []) \<longrightarrow> next' c = Ok t c1 \<longrightarrow>
        peek (rewind c1) = Ok t (rewind c1) \<and> lexsrc (rewind c1) = lexsrc c1"
    using rewind_after_next by blast
  show "peek c = Ok t c' \<longrightarrow> snd (peekTokens c') = snd (peekTokens c)"
    using peek_keeps_upper_slots by blast
  show "\<forall>c2. calls [next', next'] \<lparr>Context_Done = False, select_Done = s, input = i,
            lexsrc = a # b # ts, peekCount = - 1, peekTokens = (p0, p1, p2)\<rparr>
          = Ok [Some a, Some b] c2 \<longrightarrow>
        peek (rewind c2) = Ok (Some b) (rewind c2)
        \<and> peek (rewind (rewind c2)) = Ok p1 (rewind (rewind c2))
        \<and> lexsrc (rewind (rewind c2)) = ts"
    by (auto simp: buffer_defs)
qed

text \<open>The witness: one token taken from a fresh context, and two.\<close>

theorem lookahead_buffer_laws_witness:
  "\<not> Context_Done (parsing [token IDENT ''a'', token IDENT ''b''] (- 1) (None, None, None))
   \<and> lexsrc (parsing [token IDENT ''a'', token IDENT ''b''] (- 1) (None, None, None)) \<noteq> []
   \<and> peek (parsing [token IDENT ''a'', token IDENT ''b''] (- 1) (None, None, None))
     = Ok (Some (token IDENT ''a''))
         (parsing [token IDENT ''b''] 0 (Some (token IDENT ''a''), None, None))
   \<and> peek (parsing [token IDENT ''b''] 0 (Some (token IDENT ''a''), None, None))
     = Ok (Some (token IDENT ''a''))
         (parsing [token IDENT ''b''] 0 (Some (token IDENT ''a''), None, None))
   \<and> next' (parsing [token IDENT ''a'', token IDENT ''b''] (- 1) (None, None, None))
     = Ok (Some (token IDENT ''a''))
         (parsing [token IDENT ''b''] (- 1) (Some (token IDENT ''a''), None, None))
   \<and> peek (rewind (parsing [token IDENT ''b''] (- 1) (Some (token IDENT ''a''), None, None)))
     = Ok (Some (token IDENT ''a''))
         (rewind (parsing [token IDENT ''b''] (- 1) (Some (token IDENT ''a''), None, None)))
   \<and> calls [next', next']
       (parsing [token IDENT ''a'', token IDENT ''b''] (- 1) (None, None, None))
     = Ok [Some (token IDENT ''a''), Some (token IDENT ''b'')]
         (parsing [] (- 1) (Some (token IDENT ''b''), None, None))
   \<and> peek (rewind (rewind (parsing [] (- 1) (Some (token IDENT ''b''), None, None))))
     = Ok None (rewind (rewind (parsing [] (- 1) (Some (token IDENT ''b''), None, None))))"
proof -
  let ?c = "parsing [token IDENT ''a'', token IDENT ''b''] (- 1) (None, None, None)"
  let ?c' = "parsing [token IDENT ''b''] 0 (Some (token IDENT ''a''), None, None)"
  let ?c1 = "parsing [token IDENT ''b''] (- 1) (Some (token IDENT ''a''), None, None)"
  let ?c2 = "parsing [] (- 1) (Some (token IDENT ''b''), None, None)"
  have live: "\<not> Context_Done ?c" and nonempty: "lexsrc ?c \<noteq> []"
    by (simp_all add: parsing_def)
  have p: "peek ?c = Ok (Some (token IDENT ''a'')) ?c'"
    by (simp add: parsing_def peek_def)
  have n: "next' ?c = Ok (Some (token IDENT ''a'')) ?c1"
    by (simp add: parsing_def buffer_defs)
  have nn: "calls [next', next'] ?c = Ok [Some (token IDENT ''a''), Some (token IDENT ''b'')] ?c2"
    by (simp add: parsing_def buffer_defs)
  note laws = lookahead_buffer_laws
    [where c = ?c and c' = ?c' and ?c1.0 = ?c1 and t = "Some (token IDENT ''a'')"
       and s = False and i = "[]" and a = "token IDENT ''a''" and b = "token IDENT ''b''"
       and ts = "[]" and ?p0.0 = None and ?p1.0 = None and ?p2.0 = None]
  from laws live p have again: "peek ?c' = Ok (Some (token IDENT ''a'')) ?c'"
    by blast
  from laws live nonempty n
  have undone: "peek (rewind ?c1) = Ok (Some (token IDENT ''a'')) (rewind ?c1)"
    by blast
  from laws nn have deep: "peek (rewind (rewind ?c2)) = Ok None (rewind (rewind ?c2))"
    unfolding parsing_def by blast
  from live nonempty p again n undone nn deep show ?thesis
    by blast
qed

subsection \<open>C7: the exhausted source\<close>

text \<open>
  Claim C7 says that once the channel is closed or the context is cancelled every
  later \<^verbatim>\<open>peek\<close> or \<^verbatim>\<open>next\<close> returns the end-of-input token. \<^verbatim>\<open>peek\<close> looks at the
  channel and at the cancellation only when the cursor is below zero. With the last
  token of the source fetched and still current, the channel is closed and \<^verbatim>\<open>peek\<close>
  returns that token. And after a cancellation, with the cursor below zero, the
  \<^verbatim>\<open>select\<close> of \<^verbatim>\<open>peek\<close> may take the receive from the channel, which delivers a token
  the lexer has sent.
\<close>

theorem closed_source_yields_cached_token:
  "peek (parsing [token IDENT ''a''] (- 1) (None, None, None))
     = Ok (Some (token IDENT ''a'')) (parsing [] 0 (Some (token IDENT ''a''), None, None))
   \<and> lexsrc (parsing [] 0 (Some (token IDENT ''a''), None, None)) = []
   \<and> peek (parsing [] 0 (Some (token IDENT ''a''), None, None))
     = Ok (Some (token IDENT ''a'')) (parsing [] 0 (Some (token IDENT ''a''), None, None))
   \<and> peek \<lparr>Context_Done = True, select_Done = False, input = [],
        lexsrc = [token IDENT ''a''], peekCount = - 1, peekTokens = (None, None, None)\<rparr>
     = Ok (Some (token IDENT ''a''))
         \<lparr>Context_Done = True, select_Done = False, input = [], lexsrc = [],
          peekCount = 0, peekTokens = (Some (token IDENT ''a''), None, None)\<rparr>
   \<and> token IDENT ''a'' \<noteq> eofToken"
  by (simp add: parsing_def peek_def eofToken_def token_def)

text \<open>
  Claim C7 as amended. When the cursor is below zero and either the channel is
  closed or the context is cancelled and the \<^verbatim>\<open>select\<close> takes the \<^verbatim>\<open>Done\<close> case, \<^verbatim>\<open>peek\<close>
  and \<^verbatim>\<open>next\<close> return the end-of-input token and leave the context as it was. With the
  channel closed and the cursor below zero this holds whatever the \<^verbatim>\<open>select\<close> takes,
  so every sequence of calls of \<^verbatim>\<open>peek\<close> and \<^verbatim>\<open>next\<close>, of any length, returns nothing
  but end-of-input tokens.
\<close>

theorem exhausted_buffer_returns_EOF:
  "(peekCount c < 0 \<longrightarrow> lexsrc c = [] \<or> (Context_Done c \<and> select_Done c) \<longrightarrow>
      peek c = Ok (Some eofToken) c \<and> next' c = Ok (Some eofToken) c)
   \<and> (peekCount c < 0 \<longrightarrow> lexsrc c = [] \<longrightarrow> set fs \<subseteq> {peek, next'} \<longrightarrow>
      calls fs c = Ok (replicate (length fs) (Some eofToken)) c)"
proof (intro conjI impI)
  assume "peekCount c < 0" and "lexsrc c = [] \<or> (Context_Done c \<and> select_Done c)"
  then show "peek c = Ok (Some eofToken) c" and "next' c = Ok (Some eofToken) c"
    by (auto simp: next'_def peek_def advance_def)
next
  assume neg: "peekCount c < 0" and closed: "lexsrc c = []"
  then have one: "peek c = Ok (Some eofToken) c" "next' c = Ok (Some eofToken) c"
    by (auto simp: next'_def peek_def advance_def)
  assume "set fs \<subseteq> {peek, next'}"
  then show "calls fs c = Ok (replicate (length fs) (Some eofToken)) c"
  proof (induction fs)
    case Nil
    show ?case by simp
  next
    case (Cons f fs)
    then have "f = peek \<or> f = next'" and "set fs \<subseteq> {peek, next'}"
      by auto
    with Cons.IH one show ?case
      by auto
  qed
qed

text \<open>
  The witness: a closed channel with nothing cached, before and after a
  cancellation.
\<close>

theorem exhausted_buffer_returns_EOF_witness:
  "peekCount (parsing [] (- 1) (Some (token IDENT ''a''), None, None)) < 0
   \<and> lexsrc (parsing [] (- 1) (Some (token IDENT ''a''), None, None)) = []
   \<and> set [peek, next', next', peek] \<subseteq> {peek, next'}
   \<and> peek (parsing [] (- 1) (Some (token IDENT ''a''), None, None))
     = Ok (Some eofToken) (parsing [] (- 1) (Some (token IDENT ''a''), None, None))
   \<and> calls [peek, next', next', peek] (parsing [] (- 1) (Some (token IDENT ''a''), None, None))
     = Ok [Some eofToken, Some eofToken, Some eofToken, Some eofToken]
         (parsing [] (- 1) (Some (token IDENT ''a''), None, None))"
proof -
  let ?c = "parsing [] (- 1) (Some (token IDENT ''a''), None, None)"
  have neg: "peekCount ?c < 0" and closed: "lexsrc ?c = []"
    by (simp_all add: parsing_def)
  have fs: "set [peek, next', next', peek] \<subseteq> {peek, next'}"
    by simp
  from neg closed fs
    exhausted_buffer_returns_EOF [where c = ?c and fs = "[peek, next', next', peek]"]
  show ?thesis
    by (simp del: calls.simps)
qed

subsection \<open>C8: fatal errors\<close>

lemma andThen_eq_Ok:
  "andThen m f = Ok x c' \<longleftrightarrow> (\<exists>a c. m = Ok a c \<and> f a c = Ok x c')"
  by (cases m) simp_all

text \<open>
  What holds of the claim: an error that \<^verbatim>\<open>Parse\<close> returns comes with no statement,
  whatever had been parsed before; and \<^verbatim>\<open>CHECK\<close>, \<^verbatim>\<open>TABLESPACE\<close> and \<^verbatim>\<open>UNION\<close> are
  reported as such errors, whatever follows them.
\<close>

lemma Parse_loop_error_without_statements:
  "Parse_loop fuel stmts c = Ok (ss, Some e) c' \<Longrightarrow> ss = []"
proof (induction fuel arbitrary: stmts c)
  case 0
  then show ?case by simp
next
  case (Suc n)
  from Suc.prems obtain c1 t c2 where
    body: "(if Type t = CREATE then
         (case parseCreate n c2 of
            Err err c \<Rightarrow>
              if IsIgnorable err then Parse_loop n stmts c
              else if isParseError err then Ok ([], Some err) c
              else Ok ([], Some (ErrorWrap err ''failed to parse create'')) c
          | Ok stmt c \<Rightarrow> Parse_loop n (stmts @ [stmt]) c
          | Panic s \<Rightarrow> Panic s
          | OutOfFuel \<Rightarrow> OutOfFuel)
       else if Type t = COMMENT_IDENT then Parse_loop n stmts (advance c2)
       else if Type t = DROP \<or> Type t = SET \<or> Type t = USE then
         andThen (Parse_S1 n c2) (\<lambda>_ c. Parse_loop n stmts c)
       else if Type t = EOF then Ok (stmts, None) (advance c2)
       else Ok ([], Some (newParseError c2 t ''expected CREATE, COMMENT_IDENT or EOF'')) c2)
      = Ok (ss, Some e) c'"
    by (auto simp: andThen_eq_Ok)
  show ?case
  proof (cases "Type t = CREATE")
    case True
    with body Suc.IH show ?thesis
      by (auto split: res.splits if_splits)
  next
    case False
    with body Suc.IH show ?thesis
      by (auto simp: andThen_eq_Ok split: if_splits)
  qed
qed

lemma unsupported_clauses_are_fatal:
  "returned (Parse (\<lambda>_. [token CREATE ''CREATE'', sp, token TABLE ''TABLE'', sp,
        token IDENT ''t'', sp, token LPAREN ''('', token IDENT ''a'', sp, token INT' ''INT'',
        token COMMA '','', sp, token CHECK ''CHECK''] @ rest) (n + 4) src)
     = Some ([], Some (ParseError (token CHECK ''CHECK'') ''not support CHECK''))"
  "returned (Parse (\<lambda>_. [token CREATE ''CREATE'', sp, token TABLE ''TABLE'', sp,
        token IDENT ''t'', sp, token LPAREN ''('', token IDENT ''a'', sp, token INT' ''INT'',
        token RPAREN '')'', sp, token TABLESPACE ''TABLESPACE''] @ rest) (n + 4) src)
     = Some ([], Some (ParseError (token TABLESPACE ''TABLESPACE'') ''not support TABLESPACE''))"
  "returned (Parse (\<lambda>_. [token CREATE ''CREATE'', sp, token TABLE ''TABLE'', sp,
        token IDENT ''t'', sp, token LPAREN ''('', token IDENT ''a'', sp, token INT' ''INT'',
        token RPAREN '')'', sp, token UNION ''UNION''] @ rest) (n + 4) src)
     = Some ([], Some (ParseError (token UNION ''UNION'') ''not support UNION''))"
  by (simp_all add: run_defs eval_nat_numeral cong: andThen_weak_cong)

text \<open>
  Claim C8 says that every grammar violation is a fatal parse error that \<^verbatim>\<open>Parse\<close>
  returns. A column list that is closed while no definition is pending, after a
  comma as in \<^verbatim>\<open>CREATE TABLE t (a INT,);\<close> or at once as in \<^verbatim>\<open>CREATE TABLE t ();\<close>, is
  not reported: the \<^verbatim>\<open>RPAREN\<close> case calls \<^verbatim>\<open>appendStmt\<close> without the test for \<^verbatim>\<open>nil\<close> that
  the \<^verbatim>\<open>COMMA\<close> case makes, \<^verbatim>\<open>appendStmt\<close> panics, and \<^verbatim>\<open>Parse\<close> returns nothing.
\<close>

theorem closing_without_pending_definition_panics:
  "Parse (\<lambda>_. [token CREATE ''CREATE'', sp, token TABLE ''TABLE'', sp, token IDENT ''t'', sp,
        token LPAREN ''('', token IDENT ''a'', sp, token INT' ''INT'', token COMMA '','',
        token RPAREN '')'', token SEMICOLON '';'', token EOF []]) (n + 4) src
     = Panic ''unexpected targetStmt''
   \<and> Parse (\<lambda>_. [token CREATE ''CREATE'', sp, token TABLE ''TABLE'', sp, token IDENT ''t'', sp,
        token LPAREN ''('', token RPAREN '')'', token SEMICOLON '';'', token EOF []]) (n + 4) src
     = Panic ''unexpected targetStmt''"
  by (simp add: run_defs eval_nat_numeral cong: andThen_weak_cong)

subsection \<open>C9: CHARACTER SET and COLLATE without DEFAULT\<close>

text \<open>
  Claim C9, in the loop of the table options, with any blanks and comments between
  the words: \<^verbatim>\<open>CHARACTER SET v\<close> is recorded as the pair of the key
  \<^verbatim>\<open>DEFAULT CHARACTER SET\<close> and \<open>v\<close>, and \<^verbatim>\<open>COLLATE v\<close> as the pair of \<^verbatim>\<open>DEFAULT COLLATE\<close>
  and \<open>v\<close>, the value a bare or a backticked identifier, with or without an equals
  sign; and with \<^verbatim>\<open>DEFAULT\<close> in front the loop does, on every continuation \<open>rest\<close>, just
  what it does without: the same table, the same context, the same error.
\<close>

theorem bare_CHARACTER_SET_and_COLLATE_keys:
  assumes "spaces ws0" "spaces ws1" "spaces ws2" "spaces ws3" "spaces ws4"
    and "k = IDENT \<or> k = BACKTICK_IDENT"
  shows
    "parseCreateTableOptions (Suc n) stmt
       \<lparr>Context_Done = False, select_Done = s, input = i,
        lexsrc = ws0 @ token CHARACTER v1 # ws1 @ token SET v2 # ws2 @ token k v # rest,
        peekCount = - 1, peekTokens = (p0, p1, p2)\<rparr>
     = parseCreateTableOptions n (AddOption (''DEFAULT CHARACTER SET'', v) stmt)
         \<lparr>Context_Done = False, select_Done = s, input = i, lexsrc = rest,
          peekCount = - 1, peekTokens = (Some (token k v), p1, p2)\<rparr>
     \<and> parseCreateTableOptions (Suc n) stmt
       \<lparr>Context_Done = False, select_Done = s, input = i,
        lexsrc = ws0 @ token CHARACTER v1 # ws1 @ token SET v2 # ws2 @ token EQUAL v3 #
          ws3 @ token k v # rest,
        peekCount = - 1, peekTokens = (p0, p1, p2)\<rparr>
     = parseCreateTableOptions n (AddOption (''DEFAULT CHARACTER SET'', v) stmt)
         \<lparr>Context_Done = False, select_Done = s, input = i, lexsrc = rest,
          peekCount = - 1, peekTokens = (Some (token k v), p1, p2)\<rparr>
     \<and> parseCreateTableOptions (Suc n) stmt
       \<lparr>Context_Done = False, select_Done = s, input = i,
        lexsrc = ws0 @ token COLLATE v1 # ws2 @ token k v # rest,
        peekCount = - 1, peekTokens = (p0, p1, p2)\<rparr>
     = parseCreateTableOptions n (AddOption (''DEFAULT COLLATE'', v) stmt)
         \<lparr>Context_Done = False, select_Done = s, input = i, lexsrc = rest,
          peekCount = - 1, peekTokens = (Some (token k v), p1, p2)\<rparr>
     \<and> parseCreateTableOptions (Suc n) stmt
       \<lparr>Context_Done = False, select_Done = s, input = i,
        lexsrc = ws0 @ token COLLATE v1 # ws2 @ token EQUAL v3 # ws3 @ token k v # rest,
        peekCount = - 1, peekTokens = (p0, p1, p2)\<rparr>
     = parseCreateTableOptions n (AddOption (''DEFAULT COLLATE'', v) stmt)
         \<lparr>Context_Done = False, select_Done = s, input = i, lexsrc = rest,
          peekCount = - 1, peekTokens = (Some (token k v), p1, p2)\<rparr>
     \<and> parseCreateTableOptions (Suc n) stmt
       \<lparr>Context_Done = False, select_Done = s, input = i,
        lexsrc = ws0 @ token DEFAULT v0 # ws4 @ token CHARACTER v1 # rest,
        peekCount = - 1, peekTokens = (p0, p1, p2)\<rparr>
     = parseCreateTableOptions (Suc n) stmt
         \<lparr>Context_Done = False, select_Done = s, input = i,
          lexsrc = ws0 @ token CHARACTER v1 # rest,
          peekCount = - 1, peekTokens = (p0, p1, p2)\<rparr>
     \<and> parseCreateTableOptions (Suc n) stmt
       \<lparr>Context_Done = False, select_Done = s, input = i,
        lexsrc = ws0 @ token DEFAULT v0 # ws4 @ token COLLATE v1 # rest,
        peekCount = - 1, peekTokens = (p0, p1, p2)\<rparr>
     = parseCreateTableOptions (Suc n) stmt
         \<lparr>Context_Done = False, select_Done = s, input = i,
          lexsrc = ws0 @ token COLLATE v1 # rest,
          peekCount = - 1, peekTokens = (p0, p1, p2)\<rparr>"
  using assms
  by (elim disjE;
      simp add: skip_rules buffer_defs setOption_def NewTableOption_def newParseError_def
        cong: andThen_weak_cong)

text \<open>
  The witness: the options \<^verbatim>\<open>CHARACTER SET utf8;\<close> and \<^verbatim>\<open>DEFAULT CHARACTER SET utf8;\<close>
  behind the column list of a table \<open>t\<close>.
\<close>

theorem bare_CHARACTER_SET_and_COLLATE_keys_witness:
  "spaces [sp] \<and> spaces [] \<and> (IDENT = IDENT \<or> IDENT = BACKTICK_IDENT)
   \<and> returned (parseCreateTableOptions (Suc (Suc 0)) (NewTable ''t'')
       (parsing [sp, token CHARACTER ''CHARACTER'', sp, token SET ''SET'', sp,
          token IDENT ''utf8'', token SEMICOLON '';''] (- 1) (None, None, None)))
     = Some ((NewTable ''t'')\<lparr>tbl_options := [(''DEFAULT CHARACTER SET'', ''utf8'')]\<rparr>)
   \<and> returned (parseCreateTableOptions (Suc (Suc 0)) (NewTable ''t'')
       (parsing [sp, token DEFAULT ''DEFAULT'', sp, token CHARACTER ''CHARACTER'', sp,
          token SET ''SET'', sp, token IDENT ''utf8'', token SEMICOLON '';'']
          (- 1) (None, None, None)))
     = Some ((NewTable ''t'')\<lparr>tbl_options := [(''DEFAULT CHARACTER SET'', ''utf8'')]\<rparr>)"
proof -
  have ws: "spaces [sp]" and none: "spaces []" and k: "IDENT = IDENT \<or> IDENT = BACKTICK_IDENT"
    by simp_all
  note bare = bare_CHARACTER_SET_and_COLLATE_keys
    [OF ws ws ws none ws k, where n = "Suc 0" and stmt = "NewTable ''t''" and s = False
       and i = "[]" and ?p0.0 = None and ?p1.0 = None and ?p2.0 = None
       and ?v1.0 = "''CHARACTER''" and ?v2.0 = "''SET''" and v = "''utf8''"
       and rest = "[token SEMICOLON '';'']"]
  note prefixed = bare_CHARACTER_SET_and_COLLATE_keys
    [OF ws ws ws none ws k, where n = "Suc 0" and stmt = "NewTable ''t''" and s = False
       and i = "[]" and ?p0.0 = None and ?p1.0 = None and ?p2.0 = None
       and ?v0.0 = "''DEFAULT''" and ?v1.0 = "''CHARACTER''"
       and rest = "[sp, token SET ''SET'', sp, token IDENT ''utf8'', token SEMICOLON '';'']"]
  have rest: "returned (parseCreateTableOptions (Suc 0) stmt'
       \<lparr>Context_Done = False, select_Done = False, input = [],
        lexsrc = [token SEMICOLON '';''], peekCount = - 1, peekTokens = (q, None, None)\<rparr>)
     = Some stmt'" for stmt' q
    by (simp add: buffer_defs skipWhiteSpaces.simps cong: andThen_weak_cong)
  from bare prefixed rest ws none k show ?thesis
    by (simp add: parsing_def AddOption_def NewTable_def del: parseCreateTableOptions.simps)
qed

subsection \<open>C10: the same ON clause twice\<close>

text \<open>
  Claim C10, on the statement
  \<^verbatim>\<open>CREATE TABLE t (a INT, FOREIGN KEY (a) REFERENCES other(id) ON DELETE a1 ON DELETE a2);\<close>
  with every choice of the two actions: the statement parses, the reference has the
  second action as its \<open>on_delete\<close> and no \<open>on_update\<close>. The loop makes at most two
  rounds: a third \<^verbatim>\<open>ON\<close> is left to the enclosing list, which rejects it.
\<close>

theorem ON_DELETE_twice_overwrites:
  "returned (Parse (\<lambda>_. foreign_key_statement [token IDENT ''id'']
        (on_delete_tokens a1 @ on_delete_tokens a2)) (n + 8) src)
     = Some ([StmtTable (foreign_key_table
         \<lparr>ref_table_name = ''other'', ref_columns = [''id''], ref_match = None,
          ref_on_delete = Some a2, ref_on_update = None\<rparr>)], None)
   \<and> returned (Parse (\<lambda>_. foreign_key_statement [token IDENT ''id'']
        (on_delete_tokens a1 @ on_delete_tokens a2 @ sp # token ON ''ON'' # rest)) (n + 8) src)
     = Some ([], Some (ParseError (token ON ''ON'') ''unexpected create table fields''))"
proof (intro conjI)
  show "returned (Parse (\<lambda>_. foreign_key_statement [token IDENT ''id'']
        (on_delete_tokens a1 @ on_delete_tokens a2)) (n + 8) src)
     = Some ([StmtTable (foreign_key_table
         \<lparr>ref_table_name = ''other'', ref_columns = [''id''], ref_match = None,
          ref_on_delete = Some a2, ref_on_update = None\<rparr>)], None)"
    by (simp add: outer_defs reference_delete_delete eval_nat_numeral
          cong: andThen_weak_cong)
  show "returned (Parse (\<lambda>_. foreign_key_statement [token IDENT ''id'']
        (on_delete_tokens a1 @ on_delete_tokens a2 @ sp # token ON ''ON'' # rest)) (n + 8) src)
     = Some ([], Some (ParseError (token ON ''ON'') ''unexpected create table fields''))"
    by (simp add: outer_defs reference_delete_delete eval_nat_numeral
          cong: andThen_weak_cong)
qed

end
